theory Spec2Isabelle
  imports Main "HOL-Library.Sublist" "HOL-Library.Word"
begin

section \<open>Shared types\<close>

text \<open>
  A Go \<^verbatim>\<open>error\<close> value is modelled by the message its \<^verbatim>\<open>Error()\<close> method
  returns; a nil error is \<open>None\<close> of \<open>error option\<close>.
\<close>

datatype error = Error string

fun Error_msg :: "error \<Rightarrow> string" where
  "Error_msg (Error m) = m"

text \<open>\<^verbatim>\<open>errors.Wrapf(err, msg).Error()\<close> is \<^verbatim>\<open>msg + ": " + err.Error()\<close>.\<close>

definition Wrapf :: "error \<Rightarrow> string \<Rightarrow> error" where
  "Wrapf err msg = Error (msg @ '': '' @ Error_msg err)"

text \<open>
  \<^verbatim>\<open>protocol.Position\<close> carries two \<^verbatim>\<open>float64\<close> fields in the vendored protocol
  package. No code under study computes with them, so the coordinate type stays a
  type parameter \<open>'f\<close>.
\<close>

record 'f Position =
  Line :: 'f
  Character :: 'f

record 'f Range =
  Start :: "'f Position"
  End :: "'f Position"

record 'f TextEdit =
  Range :: "'f Range"
  NewText :: string

record 'f CompletionItem =
  Label :: string
  SortText :: string
  Kind :: nat
  InsertTextFormat :: nat
  TextEdit :: "'f TextEdit"

record 'f CompletionList =
  IsIncomplete :: bool
  Items :: "'f CompletionItem list"

record 'f CompletionParams =
  URI :: string
  Position :: "'f Position"

section \<open>The completion engine (langserver, completion part)\<close>

subsection \<open>AST nodes\<close>

text \<open>
  \<^verbatim>\<open>promql.Node\<close> is an interface of the parser library. \<^verbatim>\<open>getCompletions\<close>
  distinguishes \<^verbatim>\<open>*promql.VectorSelector\<close> and \<^verbatim>\<open>*promql.MatrixSelector\<close> (both with
  a \<^verbatim>\<open>Name\<close>) from every other node kind, and reads \<^verbatim>\<open>node.Pos()\<close>. Each
  constructor carries the node's start and end position (\<^verbatim>\<open>token.Pos\<close>, a Go int);
  the nodes of all other kinds are \<open>OtherNode\<close> with their children.
\<close>

datatype Node =
    VectorSelector string int int
  | MatrixSelector string int int
  | OtherNode int int "Node list"

fun node_Pos :: "Node \<Rightarrow> int" where
  "node_Pos (VectorSelector nm b e) = b"
| "node_Pos (MatrixSelector nm b e) = b"
| "node_Pos (OtherNode b e cs) = b"

fun node_EndPos :: "Node \<Rightarrow> int" where
  "node_EndPos (VectorSelector nm b e) = e"
| "node_EndPos (MatrixSelector nm b e) = e"
| "node_EndPos (OtherNode b e cs) = e"

text \<open>
  Modelled from the spec: \<^verbatim>\<open>getSmallestSurroundingNode\<close> is called by
  \<^verbatim>\<open>Completion\<close> but its body is not among the sources. The spec (4.6, step 1) has it
  return ``the smallest AST node whose source range contains the cursor offset'', and
  nothing (Go nil) when no node does. A node's range is read as the half-open
  interval from \<^verbatim>\<open>Pos()\<close> to \<^verbatim>\<open>EndPos()\<close>; children lie inside their parent, so the
  smallest node is the deepest one on the path to the offset.
\<close>

fun getSmallestSurroundingNode :: "Node \<Rightarrow> int \<Rightarrow> Node option"
  and smallestAmong :: "Node list \<Rightarrow> int \<Rightarrow> Node option" where
  "getSmallestSurroundingNode (VectorSelector nm b e) p =
     (if b \<le> p \<and> p < e then Some (VectorSelector nm b e) else None)"
| "getSmallestSurroundingNode (MatrixSelector nm b e) p =
     (if b \<le> p \<and> p < e then Some (MatrixSelector nm b e) else None)"
| "getSmallestSurroundingNode (OtherNode b e cs) p =
     (if b \<le> p \<and> p < e
      then (case smallestAmong cs p of
              Some c \<Rightarrow> Some c
            | None \<Rightarrow> Some (OtherNode b e cs))
      else None)"
| "smallestAmong [] p = None"
| "smallestAmong (c # cs) p =
     (case getSmallestSurroundingNode c p of
        Some n \<Rightarrow> Some n
      | None \<Rightarrow> smallestAmong cs p)"

subsection \<open>Documents and the server\<close>

record CompiledQuery =
  Ast :: Node

text \<open>
  \<^verbatim>\<open>cache.Document\<close> is used through three methods whose bodies are not among the
  sources: \<^verbatim>\<open>ProtocolPositionToTokenPos\<close>, \<^verbatim>\<open>PosToProtocolPosition\<close> and
  \<^verbatim>\<open>GetQuery\<close>. They are fields of the record, so every statement below holds for
  whatever these methods compute. \<open>Queries\<close> is the document's sequence of Compiled
  Queries (spec, section 3). The context arguments are dropped.
\<close>

record 'f Document =
  Queries :: "CompiledQuery list"
  ProtocolPositionToTokenPos :: "'f Position \<Rightarrow> error + int"
  PosToProtocolPosition :: "int \<Rightarrow> error + 'f Position"
  GetQuery :: "int \<Rightarrow> error + CompiledQuery"

text \<open>
  The fields of \<^verbatim>\<open>server\<close> that \<^verbatim>\<open>Completion\<close> and \<^verbatim>\<open>getCompletions\<close> read.
  \<open>prometheus\<close> is the API client (nil when no endpoint is configured); the client is
  represented by what \<^verbatim>\<open>v1.NewAPI(s.prometheus).LabelValues(ctx, label)\<close> answers
  during the request: the label values, or an error when the endpoint cannot be
  reached.
\<close>

record 'f server =
  cache :: "string \<rightharpoonup> 'f Document"
  prometheus :: "(string \<Rightarrow> error + string list) option"

text \<open>
  Modelled from the spec: \<^verbatim>\<open>s.cache.GetDocument\<close> is not among the sources. Spec 4.4:
  reads fail with \<^verbatim>\<open>NotFound\<close> if the URI is not open.
\<close>

definition GetDocument :: "(string \<rightharpoonup> 'f Document) \<Rightarrow> string \<Rightarrow> error + 'f Document" where
  "GetDocument c uri =
     (case c uri of
        None \<Rightarrow> Inl (Error ''document not found'')
      | Some doc \<Rightarrow> Inr doc)"

subsection \<open>String helpers of the Go standard library\<close>

text \<open>
  \<^verbatim>\<open>strings.ToLower\<close> on ASCII text: the letters A to Z are mapped to a to z, every
  other byte is kept (PromQL function names are ASCII identifiers). A string is a list
  of bytes, as Go's \<^verbatim>\<open>len\<close> counts it.
\<close>

definition ToLower_char :: "char \<Rightarrow> char" where
  "ToLower_char c =
     (if 65 \<le> (of_char c :: nat) \<and> (of_char c :: nat) \<le> 90
      then char_of ((of_char c :: nat) + 32) else c)"

definition ToLower :: "string \<Rightarrow> string" where
  "ToLower s = map ToLower_char s"

text \<open>\<^verbatim>\<open>strings.HasPrefix(s, prefix)\<close>.\<close>

definition HasPrefix :: "string \<Rightarrow> string \<Rightarrow> bool" where
  "HasPrefix s p = prefix p s"

subsection \<open>getCompletions\<close>

definition functionItem :: "'f Range \<Rightarrow> string \<Rightarrow> 'f CompletionItem" where
  "functionItem editRange name =
     \<lparr> Label = name,
       SortText = ''__1__'' @ name,
       Kind = 3,
       InsertTextFormat = 2,
       TextEdit = \<lparr> Range = editRange, NewText = name @ ''($1)'' \<rparr> \<rparr>"

definition valueItem :: "'f Range \<Rightarrow> string \<Rightarrow> 'f CompletionItem" where
  "valueItem editRange name =
     \<lparr> Label = name,
       SortText = ''__3__'' @ name,
       Kind = 12,
       InsertTextFormat = 0,
       TextEdit = \<lparr> Range = editRange, NewText = name \<rparr> \<rparr>"

text \<open>
  The two loops of \<^verbatim>\<open>getCompletions\<close>. \<open>Functions\<close> lists the keys of the library's
  table \<^verbatim>\<open>promql.Functions\<close> in the order in which the \<^verbatim>\<open>range\<close> loop of this call
  visits them (Go leaves the iteration order of a map unspecified).
\<close>

definition completionItems ::
  "string list \<Rightarrow> string list \<Rightarrow> 'f Range \<Rightarrow> string \<Rightarrow> 'f CompletionItem list" where
  "completionItems Functions allNames editRange metricName =
     map (functionItem editRange)
       (filter (\<lambda>name. HasPrefix (ToLower name) metricName) Functions)
     @ map (valueItem editRange)
       (filter (\<lambda>name. HasPrefix name metricName) allNames)"

text \<open>
  A result is the pair of the returned \<^verbatim>\<open>*protocol.CompletionList\<close> (\<open>None\<close> for nil)
  and the returned error (\<open>None\<close> for nil).
\<close>

type_synonym 'f completion_result = "'f CompletionList option \<times> error option"

definition getCompletions ::
  "string list \<Rightarrow> 'f server \<Rightarrow> 'f Document \<Rightarrow> Node \<Rightarrow> 'f completion_result" where
  "getCompletions Functions s doc node =
     (case (case node of
              VectorSelector nm b e \<Rightarrow> Some nm
            | MatrixSelector nm b e \<Rightarrow> Some nm
            | OtherNode b e cs \<Rightarrow> None) of
        None \<Rightarrow> (None, None)
      | Some metricName \<Rightarrow>
          (case prometheus s of
             None \<Rightarrow> (None, None)
           | Some api \<Rightarrow>
               (case api ''__name__'' of
                  Inl err \<Rightarrow> (None, Some err)
                | Inr allNames \<Rightarrow>
                    (case PosToProtocolPosition doc (node_Pos node) of
                       Inl err \<Rightarrow> (None, Some err)
                     | Inr start \<Rightarrow>
                         (case PosToProtocolPosition doc
                                 (node_Pos node + int (length metricName)) of
                            Inl err \<Rightarrow> (None, Some err)
                          | Inr end' \<Rightarrow>
                              (Some \<lparr> IsIncomplete = True,
                                      Items = completionItems Functions allNames
                                        \<lparr> Start = start, End = end' \<rparr> metricName \<rparr>,
                               None))))))"

subsection \<open>Completion\<close>

definition Completion ::
  "string list \<Rightarrow> 'f server \<Rightarrow> 'f CompletionParams \<Rightarrow> 'f completion_result" where
  "Completion Functions s params =
     (case GetDocument (cache s) (URI params) of
        Inl err \<Rightarrow> (None, Some err)
      | Inr doc \<Rightarrow>
          (case ProtocolPositionToTokenPos doc (Position params) of
             Inl err \<Rightarrow> (None, None)
           | Inr pos \<Rightarrow>
               (case GetQuery doc (pos - 1) of
                  Inl err \<Rightarrow> (None, None)
                | Inr query \<Rightarrow>
                    (case getSmallestSurroundingNode (Ast query) (pos - 1) of
                       None \<Rightarrow> (None, None)
                     | Some node \<Rightarrow>
                         (case getCompletions Functions s doc node of
                            (Some completions, None) \<Rightarrow> (Some completions, None)
                          | _ \<Rightarrow>
                              (case getSmallestSurroundingNode (Ast query) pos of
                                 None \<Rightarrow> (None, None)
                               | Some node' \<Rightarrow> getCompletions Functions s doc node'))))))"

section \<open>Configuration (langserver, config part)\<close>

subsection \<open>Loading and validating a configuration\<close>

text \<open>
  \<^verbatim>\<open>model.Duration\<close> is a \<^verbatim>\<open>time.Duration\<close>, a signed 64-bit count of nanoseconds.
  The code compares it with zero and stores it; the only arithmetic is the constant
  \<^verbatim>\<open>12 * 3600 * time.Second\<close>, far below \<open>2^63\<close>, so durations are integers here.
\<close>

definition Second :: int where
  "Second = 1000000000"

definition defaultInterval :: int where
  "defaultInterval = 12 * 3600 * Second"

text \<open>
  \<^verbatim>\<open>Config\<close>. \<^verbatim>\<open>RESTAPIPort\<close> is a \<^verbatim>\<open>uint64\<close> that is only stored.
\<close>

record Config =
  RPCTrace :: string
  LogFormat :: string
  PrometheusURL :: string
  RESTAPIPort :: nat
  MetadataLookbackInterval :: int

definition JSONFormat :: string where
  "JSONFormat = ''json''"

definition TextFormat :: string where
  "TextFormat = ''text''"

text \<open>
\<^verbatim>\<open>mapLogFormat[f]\<close>: true for the two known formats, false for every other key.
\<close>

definition mapLogFormat :: "string \<Rightarrow> bool" where
  "mapLogFormat f = (f = JSONFormat \<or> f = TextFormat)"

text \<open>
The error of \<^verbatim>\<open>fmt.Errorf\<close> in \<^verbatim>\<open>Validate\<close>; \<open>CHR 0x22\<close> is the double quote.
\<close>

definition invalidLogFormat :: "string \<Rightarrow> error" where
  "invalidLogFormat f =
     Error (''invalid value for logFormat. '' @ [CHR 0x22] @ f @ [CHR 0x22] @
            '' Valid values are  '' @ [CHR 0x22] @ TextFormat @ [CHR 0x22] @
            '' or '' @ [CHR 0x22] @ JSONFormat @ [CHR 0x22])"

text \<open>
  \<^verbatim>\<open>Validate\<close> changes the configuration in place and returns an error: the model
  returns the configuration after the call together with the error. \<open>parseURL\<close> stands
  for \<^verbatim>\<open>url.Parse\<close> of the standard library (only its error is used).
\<close>

definition Validate :: "(string \<Rightarrow> error option) \<Rightarrow> Config \<Rightarrow> Config \<times> error option" where
  "Validate parseURL c =
     (case (if length (PrometheusURL c) > 0 then parseURL (PrometheusURL c) else None) of
        Some err \<Rightarrow> (c, Some err)
      | None \<Rightarrow>
          if length (LogFormat c) > 0 \<and> \<not> mapLogFormat (LogFormat c)
          then (c, Some (invalidLogFormat (LogFormat c)))
          else
            (let c1 = (if length (LogFormat c) > 0 then c else c\<lparr> LogFormat := TextFormat \<rparr>);
                 c2 = (if MetadataLookbackInterval c1 \<le> 0
                       then c1\<lparr> MetadataLookbackInterval := defaultInterval \<rparr>
                       else c1)
             in (c2, None)))"

text \<open>
  \<^verbatim>\<open>UnmarshalYAML\<close>: \<open>unmarshal\<close> is what decoding the YAML document into a fresh
  \<^verbatim>\<open>Config\<close> gives; the receiver is overwritten only when validation succeeds.
\<close>

definition UnmarshalYAML ::
  "(string \<Rightarrow> error option) \<Rightarrow> Config \<Rightarrow> error + Config \<Rightarrow> Config \<times> error option" where
  "UnmarshalYAML parseURL c unmarshal =
     (case unmarshal of
        Inl err \<Rightarrow> (c, Some err)
      | Inr tmp \<Rightarrow>
          (case Validate parseURL tmp of
             (tmp', Some err) \<Rightarrow> (c, Some err)
           | (tmp', None) \<Rightarrow> (tmp', None)))"

text \<open>
  \<^verbatim>\<open>unmarshalENV\<close>: \<open>process\<close> is the outcome of \<^verbatim>\<open>envconfig.Process\<close>, the five
  strings read from the environment. \<open>parseUint\<close> and \<open>parseDuration\<close> stand for
  \<^verbatim>\<open>strconv.ParseUint\<close> and \<^verbatim>\<open>model.ParseDuration\<close>; each returns a value and an
  error, and the value is assigned before the error is looked at.
\<close>

record EnvConf =
  env_RPCTrace :: string
  env_LogFormat :: string
  env_PrometheusURL :: string
  env_RESTAPIPort :: string
  env_MetadataLookbackInterval :: string

definition unmarshalENV ::
  "(string \<Rightarrow> error option) \<Rightarrow> (string \<Rightarrow> nat \<times> error option) \<Rightarrow>
   (string \<Rightarrow> int \<times> error option) \<Rightarrow> Config \<Rightarrow> error + EnvConf \<Rightarrow> Config \<times> error option" where
  "unmarshalENV parseURL parseUint parseDuration c process =
     (case process of
        Inl err \<Rightarrow> (c, Some err)
      | Inr conf \<Rightarrow>
          (let (c1, portError) =
                 (if length (env_RESTAPIPort conf) > 0
                  then (case parseUint (env_RESTAPIPort conf) of
                          (port, parseError) \<Rightarrow> (c\<lparr> RESTAPIPort := port \<rparr>, parseError))
                  else (c, None))
           in case portError of
                Some parseError \<Rightarrow> (c1, Some parseError)
              | None \<Rightarrow>
                  (let (c2, durationError) =
                         (if length (env_MetadataLookbackInterval conf) > 0
                          then (case parseDuration (env_MetadataLookbackInterval conf) of
                                  (d, parseError) \<Rightarrow>
                                    (c1\<lparr> MetadataLookbackInterval := d \<rparr>, parseError))
                          else (c1, None))
                   in case durationError of
                        Some parseError \<Rightarrow> (c2, Some parseError)
                      | None \<Rightarrow>
                          Validate parseURL
                            (c2\<lparr> RPCTrace := env_RPCTrace conf,
                                 PrometheusURL := env_PrometheusURL conf,
                                 LogFormat := env_LogFormat conf \<rparr>))))"

text \<open>
  \<^verbatim>\<open>new(Config)\<close>: every field has its zero value.
\<close>

definition zeroConfig :: Config where
  "zeroConfig =
     \<lparr> RPCTrace = [], LogFormat = [], PrometheusURL = [], RESTAPIPort = 0,
       MetadataLookbackInterval = 0 \<rparr>"

text \<open>
  What \<^verbatim>\<open>yaml.Unmarshal(b, res)\<close> of the YAML library finds in the bytes of the file.
  Bytes that are not YAML give an error. For a document node the library calls the
  \<^verbatim>\<open>UnmarshalYAML\<close> hook of \<^verbatim>\<open>Config\<close> and hands it the function \<^verbatim>\<open>unmarshal\<close>;
  \<open>DocumentNode\<close> carries what that function gives when it decodes the node into the
  plain \<^verbatim>\<open>Config\<close>. For bytes that hold no document (an empty file, or comments only)
  or a null document, the library returns nil without calling the hook.
\<close>

datatype YAMLInput = NoDocument | Malformed error | DocumentNode "error + Config"

text \<open>
  What the loaders call outside the sources: \<^verbatim>\<open>ioutil.ReadFile\<close>, the YAML library,
  \<^verbatim>\<open>envconfig.Process\<close> (the five strings of the environment, or an error),
  \<^verbatim>\<open>strconv.ParseUint\<close>, \<^verbatim>\<open>model.ParseDuration\<close> and \<^verbatim>\<open>url.Parse\<close>.
\<close>

record loading =
  os_ReadFile :: "string \<Rightarrow> error + string"
  yaml_parse :: "string \<Rightarrow> YAMLInput"
  envconfig_Process :: "error + EnvConf"
  strconv_ParseUint :: "string \<Rightarrow> nat \<times> error option"
  model_ParseDuration :: "string \<Rightarrow> int \<times> error option"
  net_url_Parse :: "string \<Rightarrow> error option"

definition yaml_Unmarshal :: "loading \<Rightarrow> string \<Rightarrow> Config \<Rightarrow> Config \<times> error option" where
  "yaml_Unmarshal L b res =
     (case yaml_parse L b of
        NoDocument \<Rightarrow> (res, None)
      | Malformed err \<Rightarrow> (res, Some err)
      | DocumentNode unmarshal \<Rightarrow> UnmarshalYAML (net_url_Parse L) res unmarshal)"

text \<open>
  \<^verbatim>\<open>readConfigFromYAML\<close>, \<^verbatim>\<open>readConfigFromENV\<close> and \<^verbatim>\<open>ReadConfig\<close> return a
  \<^verbatim>\<open>*Config\<close> (\<open>None\<close> for nil) and an error. After the file is read, the pointer
  is returned whether or not there is an error.
\<close>

definition readConfigFromYAML :: "loading \<Rightarrow> string \<Rightarrow> Config option \<times> error option" where
  "readConfigFromYAML L configFile =
     (case os_ReadFile L configFile of
        Inl err \<Rightarrow> (None, Some err)
      | Inr b \<Rightarrow>
          (case yaml_Unmarshal L b zeroConfig of
             (res, err) \<Rightarrow> (Some res, err)))"

definition readConfigFromENV :: "loading \<Rightarrow> Config option \<times> error option" where
  "readConfigFromENV L =
     (case unmarshalENV (net_url_Parse L) (strconv_ParseUint L) (model_ParseDuration L)
             zeroConfig (envconfig_Process L) of
        (res, err) \<Rightarrow> (Some res, err))"

definition ReadConfig :: "loading \<Rightarrow> string \<Rightarrow> Config option \<times> error option" where
  "ReadConfig L configFile =
     (if length configFile = 0 then readConfigFromENV L
      else readConfigFromYAML L configFile)"

subsection \<open>Runtime configuration changes\<close>

text \<open>
  Messages sent to the client: \<^verbatim>\<open>s.client.LogMessage\<close> and \<^verbatim>\<open>s.client.ShowMessage\<close>
  with their \<^verbatim>\<open>Type\<close> and \<^verbatim>\<open>Message\<close>. The server records them in the order sent.
\<close>

datatype MessageType = TypeError | TypeWarning | TypeInfo | TypeLog

datatype ClientMessage = LogMessage MessageType string | ShowMessage MessageType string

text \<open>
  \<^verbatim>\<open>params.Settings\<close> is an \<^verbatim>\<open>interface{}\<close>; the type assertion to
  \<^verbatim>\<open>map[string]map[string]string\<close> either succeeds (\<open>SettingsMap\<close>) or does not
  (\<open>SettingsOther\<close>).
\<close>

datatype SettingsValue = SettingsMap "string \<rightharpoonup> (string \<rightharpoonup> string)" | SettingsOther

record DidChangeConfigurationParams =
  Settings :: SettingsValue

text \<open>
  The fields of \<^verbatim>\<open>server\<close> that the configuration code touches: the messages sent
  to the client so far, the state of the metadata service, and the configuration.
\<close>

record 'ms config_server =
  client :: "ClientMessage list"
  metadataService :: 'ms
  config :: Config

text \<open>
  What the configuration code calls outside the sources: \<^verbatim>\<open>url.Parse\<close> (its error),
  \<^verbatim>\<open>model.ParseDuration\<close>, the method \<^verbatim>\<open>ChangeDataSource\<close> of the metadata service
  (it may change the service's state and returns an error), and the text that
  \<^verbatim>\<open>fmt.Sprintf("%v", params)\<close> prints. Every statement below holds for any choice of
  them.
\<close>

record 'ms externals =
  url_Parse :: "string \<Rightarrow> error option"
  ParseDuration :: "string \<Rightarrow> int \<times> error option"
  ChangeDataSource :: "'ms \<Rightarrow> string \<Rightarrow> 'ms \<times> error option"
  Sprint_params :: "DidChangeConfigurationParams \<Rightarrow> string"

definition send :: "'ms config_server \<Rightarrow> ClientMessage \<Rightarrow> 'ms config_server" where
  "send s m = s\<lparr> client := client s @ [m] \<rparr>"

definition connectPrometheus ::
  "'ms externals \<Rightarrow> 'ms config_server \<Rightarrow> string \<Rightarrow> 'ms config_server \<times> error option" where
  "connectPrometheus ext s url =
     (case ChangeDataSource ext (metadataService s) url of
        (ms, Some err) \<Rightarrow>
          (send (s\<lparr> metadataService := ms \<rparr>)
             (ShowMessage TypeError
                (''Failed to connect to Prometheus at '' @ url @ '':'' @ [CHR 0x0A, CHR 0x0A] @
                 Error_msg err @ '' '')),
           Some err)
      | (ms, None) \<Rightarrow> (s\<lparr> metadataService := ms \<rparr>, None))"

definition setURLFromChangeConfiguration ::
  "'ms externals \<Rightarrow> 'ms config_server \<Rightarrow> (string \<rightharpoonup> string) \<Rightarrow> 'ms config_server \<times> error option" where
  "setURLFromChangeConfiguration ext s settings =
     (case settings ''url'' of
        Some promURL \<Rightarrow>
          (case url_Parse ext promURL of
             Some err \<Rightarrow> (s, Some err)
           | None \<Rightarrow> connectPrometheus ext s promURL)
      | None \<Rightarrow> (s, None))"

definition setMetadataLookbackIntervalFromChangeConfiguration ::
  "'ms externals \<Rightarrow> 'ms config_server \<Rightarrow> (string \<rightharpoonup> string) \<Rightarrow> 'ms config_server \<times> error option" where
  "setMetadataLookbackIntervalFromChangeConfiguration ext s settings =
     (case settings ''metadataLookbackInterval'' of
        Some interval \<Rightarrow>
          (case ParseDuration ext interval of
             (duration, Some err) \<Rightarrow> (s, Some err)
           | (duration, None) \<Rightarrow>
               (s\<lparr> config := (config s)\<lparr> MetadataLookbackInterval := duration \<rparr> \<rparr>, None))
      | None \<Rightarrow> (s, None))"

definition DidChangeConfiguration ::
  "'ms externals \<Rightarrow> 'ms config_server \<Rightarrow> DidChangeConfigurationParams option \<Rightarrow>
   'ms config_server \<times> error option" where
  "DidChangeConfiguration ext s params =
     (case params of
        None \<Rightarrow> (s, None)
      | Some p \<Rightarrow>
          (let s1 = send s (LogMessage TypeInfo
                      (''Received notification change: '' @ Sprint_params ext p @ [CHR 0x0A]))
           in case Settings p of
                SettingsOther \<Rightarrow>
                  (send s1 (LogMessage TypeError ''unexpected format of the configuration''), None)
              | SettingsMap m \<Rightarrow>
                  (case m ''promql'' of
                     None \<Rightarrow> (send s1 (LogMessage TypeError ''promQL key not found''), None)
                   | Some cfg \<Rightarrow>
                       (let (s2, err) = setURLFromChangeConfiguration ext s1 cfg;
                            s3 = (case err of
                                    Some e \<Rightarrow> send s2 (LogMessage TypeInfo (Error_msg e))
                                  | None \<Rightarrow> s2);
                            (s4, err') = setMetadataLookbackIntervalFromChangeConfiguration ext s3 cfg;
                            s5 = (case err' of
                                    Some e \<Rightarrow> send s4 (LogMessage TypeInfo (Error_msg e))
                                  | None \<Rightarrow> s4)
                        in (s5, None)))))"

section \<open>The stateless HTTP adapter\<close>

text \<open>
  A request as the handler reads it: \<^verbatim>\<open>r.URL.Path\<close> and the parsed query
  \<^verbatim>\<open>r.URL.Query()\<close>, a map from a parameter to its values. A response is the status
  and the body written; \<open>Panic\<close> is a run-time panic of the handler (no response is
  written). \<^verbatim>\<open>http.Error\<close> writes the message and a newline.
\<close>

record Request =
  Path :: string
  Query :: "string \<rightharpoonup> string list"

datatype Response = Response nat string | Panic

definition http_Error :: "string \<Rightarrow> nat \<Rightarrow> Response" where
  "http_Error msg code = Response code (msg @ [CHR 0x0A])"

definition http_NotFound :: Response where
  "http_NotFound = http_Error ''404 page not found'' 404"

record TextDocumentItem =
  DocURI :: string
  LanguageID :: string
  Version :: int
  Text :: string

record 'f HoverParams =
  HoverURI :: string
  HoverPosition :: "'f Position"

text \<open>
  \<^verbatim>\<open>langserver.HeadlessServer\<close> is an interface: the handler works with any
  implementation. The record holds the five methods the handler calls, over the
  implementation's state \<open>'st\<close>; a pointer result is an option (\<open>None\<close> for nil).
\<close>

record ('st, 'd, 'h, 'f) HeadlessServer =
  hs_DidOpen :: "'st \<Rightarrow> TextDocumentItem \<Rightarrow> 'st \<times> error option"
  hs_DidClose :: "'st \<Rightarrow> string \<Rightarrow> 'st \<times> error option"
  hs_GetDiagnostics :: "'st \<Rightarrow> string \<Rightarrow> 'st \<times> 'd option \<times> error option"
  hs_Hover :: "'st \<Rightarrow> 'f HoverParams \<Rightarrow> 'st \<times> 'h option \<times> error option"
  hs_Completion :: "'st \<Rightarrow> 'f CompletionParams \<Rightarrow> 'st \<times> 'f CompletionList option \<times> error option"

record 'st langserverHandler =
  langserver :: 'st
  requestCounter :: "64 word"

text \<open>
  What \<^verbatim>\<open>returnJSON\<close> is given: the diagnostics, the hover (possibly nil) or the
  completion items.
\<close>

datatype ('d, 'h, 'f) Content =
    DiagnosticsContent 'd
  | HoverContent "'h option"
  | ItemsContent "'f CompletionItem list"

text \<open>
  \<^verbatim>\<open>fmt.Sprint(atomic.AddInt64(&h.requestCounter, 1), ".promql")\<close>: the counter is a
  signed 64-bit integer that wraps; no space is added, since one operand is a string.
\<close>

function decimal :: "nat \<Rightarrow> string" where
  "decimal n =
     (if n < 10 then [char_of (48 + n)]
      else decimal (n div 10) @ [char_of (48 + n mod 10)])"
  by pat_completeness auto
termination
  by (relation "measure id") auto

definition Sprint_int64 :: "64 word \<Rightarrow> string" where
  "Sprint_int64 w =
     (if sint w < 0 then CHR ''-'' # decimal (nat (- sint w)) else decimal (nat (sint w)))"

definition requestID :: "64 word \<Rightarrow> string" where
  "requestID counter = Sprint_int64 counter @ ''.promql''"

text \<open>
  \<open>encode\<close> stands for the JSON encoder of the standard library; \<^verbatim>\<open>Encode\<close> writes
  the encoding and a newline. \<open>ParseFloat\<close> stands for \<^verbatim>\<open>strconv.ParseFloat\<close>.
\<close>

definition returnJSON ::
  "(('d, 'h, 'f) Content \<Rightarrow> error + string) \<Rightarrow> ('d, 'h, 'f) Content \<Rightarrow> Response" where
  "returnJSON encode content =
     (case encode content of
        Inl err \<Rightarrow> http_Error (Error_msg (Wrapf err ''failed to write response'')) 500
      | Inr json \<Rightarrow> Response 200 (json @ [CHR 0x0A]))"

definition getPositionFromURL ::
  "(string \<Rightarrow> error + 'f) \<Rightarrow> (string \<rightharpoonup> string list) \<Rightarrow> error + 'f Position" where
  "getPositionFromURL ParseFloat query =
     (case query ''line'' of
        None \<Rightarrow> Inl (Error ''Param line is not specified'')
      | Some [] \<Rightarrow> Inl (Error ''Param line is not specified'')
      | Some (lineStr # lineStrs) \<Rightarrow>
          (case ParseFloat lineStr of
             Inl err \<Rightarrow> Inl (Wrapf err ''Failed to parse line number'')
           | Inr line \<Rightarrow>
               (case query ''char'' of
                  None \<Rightarrow> Inl (Error ''Param char is not specified'')
                | Some [] \<Rightarrow> Inl (Error ''Param char is not specified'')
                | Some (charStr # charStrs) \<Rightarrow>
                    (case ParseFloat charStr of
                       Inl err \<Rightarrow> Inl (Wrapf err ''Failed to parse char number'')
                     | Inr char \<Rightarrow> Inr \<lparr> Line = line, Character = char \<rparr>))))"

text \<open>
  The three sub-handlers. Each gets the server state after \<^verbatim>\<open>DidOpen\<close> and returns
  the state it leaves. \<^verbatim>\<open>diagnostics.Diagnostics\<close> and \<^verbatim>\<open>completion.Items\<close>
  dereference the returned pointer: on a nil pointer the handler panics.
\<close>

definition diagnosticsHandler ::
  "(('d, 'h, 'f) Content \<Rightarrow> error + string) \<Rightarrow> ('st, 'd, 'h, 'f) HeadlessServer \<Rightarrow> string \<Rightarrow>
   'st \<Rightarrow> Request \<Rightarrow> 'st \<times> Response" where
  "diagnosticsHandler encode s uri st r =
     (case hs_GetDiagnostics s st uri of
        (st', diagnostics, Some err) \<Rightarrow>
          (st', http_Error (Error_msg (Wrapf err ''failed to get diagnostics'')) 500)
      | (st', None, None) \<Rightarrow> (st', Panic)
      | (st', Some diagnostics, None) \<Rightarrow>
          (st', returnJSON encode (DiagnosticsContent diagnostics)))"

definition hoverHandler ::
  "(string \<Rightarrow> error + 'f) \<Rightarrow> (('d, 'h, 'f) Content \<Rightarrow> error + string) \<Rightarrow>
   ('st, 'd, 'h, 'f) HeadlessServer \<Rightarrow> string \<Rightarrow> 'st \<Rightarrow> Request \<Rightarrow> 'st \<times> Response" where
  "hoverHandler ParseFloat encode s uri st r =
     (case getPositionFromURL ParseFloat (Query r) of
        Inl err \<Rightarrow> (st, http_Error (Error_msg err) 400)
      | Inr position \<Rightarrow>
          (case hs_Hover s st \<lparr> HoverURI = uri, HoverPosition = position \<rparr> of
             (st', hover, Some err) \<Rightarrow>
               (st', http_Error (Error_msg (Wrapf err ''failed to get hover info'')) 500)
           | (st', hover, None) \<Rightarrow> (st', returnJSON encode (HoverContent hover))))"

definition completionHandler ::
  "(string \<Rightarrow> error + 'f) \<Rightarrow> (('d, 'h, 'f) Content \<Rightarrow> error + string) \<Rightarrow>
   ('st, 'd, 'h, 'f) HeadlessServer \<Rightarrow> string \<Rightarrow> 'st \<Rightarrow> Request \<Rightarrow> 'st \<times> Response" where
  "completionHandler ParseFloat encode s uri st r =
     (case getPositionFromURL ParseFloat (Query r) of
        Inl err \<Rightarrow> (st, http_Error (Error_msg err) 400)
      | Inr position \<Rightarrow>
          (case hs_Completion s st \<lparr> URI = uri, Position = position \<rparr> of
             (st', completion, Some err) \<Rightarrow>
               (st', http_Error (Error_msg (Wrapf err ''failed to get hover info'')) 500)
           | (st', None, None) \<Rightarrow> (st', Panic)
           | (st', Some completion, None) \<Rightarrow>
               (st', returnJSON encode (ItemsContent (Items completion)))))"

text \<open>
  \<^verbatim>\<open>ServeHTTP\<close>. The deferred \<^verbatim>\<open>DidClose\<close> runs when the function returns after
  the \<^verbatim>\<open>defer\<close> statement, also when the sub-handler panics.
\<close>

definition ServeHTTP ::
  "(string \<Rightarrow> error + 'f) \<Rightarrow> (('d, 'h, 'f) Content \<Rightarrow> error + string) \<Rightarrow>
   ('st, 'd, 'h, 'f) HeadlessServer \<Rightarrow> 'st langserverHandler \<Rightarrow> Request \<Rightarrow>
   'st langserverHandler \<times> Response" where
  "ServeHTTP ParseFloat encode s h r =
     (let counter = requestCounter h + 1;
          h1 = h\<lparr> requestCounter := counter \<rparr>;
          uri = requestID counter
      in case (if Path r = ''/diagnostics'' then Some (diagnosticsHandler encode s uri)
               else if Path r = ''/hover'' then Some (hoverHandler ParseFloat encode s uri)
               else if Path r = ''/completion'' then Some (completionHandler ParseFloat encode s uri)
               else None) of
           None \<Rightarrow> (h1, http_NotFound)
         | Some subHandler \<Rightarrow>
             (case Query r ''expr'' of
                None \<Rightarrow> (h1, http_Error ''Param expr is not specified'' 400)
              | Some [] \<Rightarrow> (h1, http_Error ''Param expr is not specified'' 400)
              | Some (expr # exprs) \<Rightarrow>
                  (let (st1, openError) =
                         hs_DidOpen s (langserver h1)
                           \<lparr> DocURI = uri, LanguageID = ''promql'', Version = 0, Text = expr \<rparr>;
                       (st2, response) =
                         (case openError of
                            Some err \<Rightarrow>
                              (st1, http_Error (Error_msg (Wrapf err ''failed to open document'')) 500)
                          | None \<Rightarrow> subHandler st1 r);
                       (st3, closeError) = hs_DidClose s st2 uri
                   in (h1\<lparr> langserver := st3 \<rparr>, response))))"

section \<open>Definitions that follow the spec's words\<close>

text \<open>
  The lookup of spec 4.6, step 1: the smallest node containing the cursor offset,
  searched in every Compiled Query of the document; only if there is none, the same
  search at \<open>cursor - 1\<close>.
\<close>

definition locate_spec :: "'f Document \<Rightarrow> int \<Rightarrow> Node option" where
  "locate_spec doc cursor =
     (case List.map_filter (\<lambda>q. getSmallestSurroundingNode (Ast q) cursor) (Queries doc) of
        n # ns \<Rightarrow> Some n
      | [] \<Rightarrow>
          (case List.map_filter (\<lambda>q. getSmallestSurroundingNode (Ast q) (cursor - 1))
                  (Queries doc) of
             n # ns \<Rightarrow> Some n
           | [] \<Rightarrow> None))"

text \<open>
  The matching rule of spec 4.6, step 3, prefix part: case-insensitive for the
  candidate and for the token.
\<close>

definition specPrefixMatch :: "string \<Rightarrow> string \<Rightarrow> bool" where
  "specPrefixMatch candidate token = prefix (ToLower token) (ToLower candidate)"

text \<open>
Alphabetical order of a list of names (bytewise, non-strict).
\<close>

definition alphabetical :: "string list \<Rightarrow> bool" where
  "alphabetical names =
     sorted_wrt (\<lambda>a b. a = b \<or> lexordp (\<lambda>c d. (of_char c :: nat) < of_char d) a b) names"

text \<open>
  Modelled from the spec: the metadata service behind \<^verbatim>\<open>ChangeDataSource\<close> is not
  among the sources. Spec 4.5: \<^verbatim>\<open>refresh()\<close> replaces the snapshot on success and
  leaves it untouched on failure; \<^verbatim>\<open>changeSource(url)\<close> validates the URL
  syntactically, swaps the configured endpoint and triggers an immediate refresh, and
  on failure to reach the new endpoint reports the error, keeps the previous snapshot
  and does not fall back to the old URL. \<open>fetch\<close> is what the endpoint at a URL
  answers.
\<close>

record MetadataCache =
  source :: string
  metricNames :: "string list"

definition refresh :: "(string \<Rightarrow> error + string list) \<Rightarrow> MetadataCache \<Rightarrow> MetadataCache \<times> error option" where
  "refresh fetch m =
     (case fetch (source m) of
        Inl err \<Rightarrow> (m, Some err)
      | Inr names \<Rightarrow> (m\<lparr> metricNames := names \<rparr>, None))"

definition changeSource ::
  "(string \<Rightarrow> error option) \<Rightarrow> (string \<Rightarrow> error + string list) \<Rightarrow> MetadataCache \<Rightarrow> string \<Rightarrow>
   MetadataCache \<times> error option" where
  "changeSource parse fetch m url =
     (case parse url of
        Some err \<Rightarrow> (m, Some err)
      | None \<Rightarrow> refresh fetch (m\<lparr> source := url \<rparr>))"

text \<open>
  Modelled from the spec: the language server behind the HTTP adapter, as far as the
  spec fixes it. \<^verbatim>\<open>DidOpen\<close> compiles the text and stores the document under its URI,
  and fails if the URI is already open (4.4); \<^verbatim>\<open>DidClose\<close> removes the document;
  reads fail if the URI is not open. \<^verbatim>\<open>Completion\<close> is the function of the sources.
  \<open>compile\<close>, \<open>diagnose\<close> and \<open>hover\<close> stand for the compilation pipeline, the
  diagnostics engine and the hover engine.
\<close>

definition headlessServer ::
  "string list \<Rightarrow> (string \<Rightarrow> 'f Document) \<Rightarrow> ('f Document \<Rightarrow> 'd) \<Rightarrow>
   ('f Document \<Rightarrow> 'f Position \<Rightarrow> 'h option) \<Rightarrow> ('f server, 'd, 'h, 'f) HeadlessServer" where
  "headlessServer Functions compile diagnose hover =
     \<lparr> hs_DidOpen = (\<lambda>s item.
         case cache s (DocURI item) of
           Some doc \<Rightarrow> (s, Some (Error ''document already open''))
         | None \<Rightarrow> (s\<lparr> cache := (cache s)(DocURI item \<mapsto> compile (Text item)) \<rparr>, None)),
       hs_DidClose = (\<lambda>s uri. (s\<lparr> cache := (cache s)(uri := None) \<rparr>, None)),
       hs_GetDiagnostics = (\<lambda>s uri.
         case GetDocument (cache s) uri of
           Inl err \<Rightarrow> (s, None, Some err)
         | Inr doc \<Rightarrow> (s, Some (diagnose doc), None)),
       hs_Hover = (\<lambda>s params.
         case GetDocument (cache s) (HoverURI params) of
           Inl err \<Rightarrow> (s, None, Some err)
         | Inr doc \<Rightarrow> (s, hover doc (HoverPosition params), None)),
       hs_Completion = (\<lambda>s params. (s, Completion Functions s params)) \<rparr>"

section \<open>Example inputs\<close>

text \<open>
  Modelled from the spec: the document of a one-line text of \<open>n\<close> ASCII characters
  that is pure query text, with AST \<open>ast\<close>. The text is one region spanning the whole
  document (4.2); the first character has token position 1; a position is valid if it
  lies on line 0 at a column from 0 to \<open>n\<close>, the end of the document included, and any
  other position fails (4.1).
\<close>

definition singleLineDocument :: "nat \<Rightarrow> Node \<Rightarrow> int Document" where
  "singleLineDocument n ast =
     \<lparr> Queries = [\<lparr> Ast = ast \<rparr>],
       ProtocolPositionToTokenPos =
         (\<lambda>p. if Line p = 0 \<and> 0 \<le> Character p \<and> Character p \<le> int n
              then Inr (1 + Character p)
              else Inl (Error ''position out of range'')),
       PosToProtocolPosition =
         (\<lambda>q. if 1 \<le> q \<and> q \<le> 1 + int n
              then Inr \<lparr> Line = 0, Character = q - 1 \<rparr>
              else Inl (Error ''position out of range'')),
       GetQuery =
         (\<lambda>q. if 1 \<le> q \<and> q < 1 + int n
              then Inr \<lparr> Ast = ast \<rparr>
              else Inl (Error ''no query found at given position'')) \<rparr>"

text \<open>
  The documents \<^verbatim>\<open>up\<close>, \<^verbatim>\<open> up\<close> (with a leading blank), \<^verbatim>\<open>rate(up[5m])\<close>,
  \<^verbatim>\<open>up+x\<close>, \<^verbatim>\<open>UP\<close> and \<^verbatim>\<open>r\<close>.
\<close>

definition doc_up :: "int Document" where
  "doc_up = singleLineDocument 2 (VectorSelector ''up'' 1 3)"

definition doc_padded :: "int Document" where
  "doc_padded = singleLineDocument 3 (VectorSelector ''up'' 2 4)"

definition doc_rate :: "int Document" where
  "doc_rate = singleLineDocument 12 (OtherNode 1 13 [MatrixSelector ''up'' 6 12])"

definition doc_sum :: "int Document" where
  "doc_sum = singleLineDocument 4
     (OtherNode 1 5 [VectorSelector ''up'' 1 3, VectorSelector ''x'' 4 5])"

definition doc_UP :: "int Document" where
  "doc_UP = singleLineDocument 2 (VectorSelector ''UP'' 1 3)"

definition doc_r :: "int Document" where
  "doc_r = singleLineDocument 1 (VectorSelector ''r'' 1 2)"

text \<open>
  An endpoint that knows three metric names, one that cannot be reached, a server with
  one open document, a completion request, and an iteration order of the function
  table.
\<close>

definition api_up :: "string \<Rightarrow> error + string list" where
  "api_up label = (if label = ''__name__'' then Inr [''up'', ''up_total'', ''go_info''] else Inr [])"

definition api_down :: "string \<Rightarrow> error + string list" where
  "api_down label = Inl (Error ''connection refused'')"

definition server_with :: "int Document \<Rightarrow> (string \<Rightarrow> error + string list) option \<Rightarrow> int server" where
  "server_with doc api = \<lparr> cache = [''q.promql'' \<mapsto> doc], prometheus = api \<rparr>"

definition cursor_at :: "int \<Rightarrow> int \<Rightarrow> int CompletionParams" where
  "cursor_at l c = \<lparr> URI = ''q.promql'', Position = \<lparr> Line = l, Character = c \<rparr> \<rparr>"

definition some_Functions :: "string list" where
  "some_Functions = [''round'', ''rate'', ''abs'']"

text \<open>
  A URL parser that rejects ASCII control characters, as \<^verbatim>\<open>url.Parse\<close> does first
  (\<^verbatim>\<open>url.Parse\<close> rejects more); a duration parser that knows two durations; an
  endpoint reachable at one URL only; and, for loading, a file system with one empty
  file \<^verbatim>\<open>empty.yml\<close> and an environment in which no variable is set.
\<close>

definition ctl_url_Parse :: "string \<Rightarrow> error option" where
  "ctl_url_Parse u =
     (if list_ex (\<lambda>c. (of_char c :: nat) < 32 \<or> (of_char c :: nat) = 127) u
      then Some (Error ''net/url: invalid control character in URL'')
      else None)"

definition some_ParseDuration :: "string \<Rightarrow> int \<times> error option" where
  "some_ParseDuration d =
     (if d = ''3w'' then (3 * 7 * 24 * 3600 * Second, None)
      else if d = ''12h'' then (12 * 3600 * Second, None)
      else (0, Some (Error ''not a valid duration string'')))"

definition some_fetch :: "string \<Rightarrow> error + string list" where
  "some_fetch u =
     (if u = ''http://localhost:9090'' then Inr [''up'', ''up_total'']
      else Inl (Error ''connection refused''))"

definition some_externals :: "MetadataCache externals" where
  "some_externals =
     \<lparr> url_Parse = ctl_url_Parse,
       ParseDuration = some_ParseDuration,
       ChangeDataSource = changeSource ctl_url_Parse some_fetch,
       Sprint_params = (\<lambda>p. ''&{...}'') \<rparr>"

definition some_config_server :: "MetadataCache config_server" where
  "some_config_server =
     \<lparr> client = [],
       metadataService = \<lparr> source = ''http://localhost:9090'', metricNames = [''up''] \<rparr>,
       config = \<lparr> RPCTrace = [], LogFormat = TextFormat, PrometheusURL = ''http://localhost:9090'',
                  RESTAPIPort = 0, MetadataLookbackInterval = defaultInterval \<rparr> \<rparr>"

definition some_loading :: loading where
  "some_loading =
     \<lparr> os_ReadFile = (\<lambda>f. if f = ''empty.yml'' then Inr [] else Inl (Error ''no such file'')),
       yaml_parse = (\<lambda>b. if b = [] then NoDocument else Malformed (Error ''yaml: cannot parse'')),
       envconfig_Process =
         Inr \<lparr> env_RPCTrace = [], env_LogFormat = [], env_PrometheusURL = [],
               env_RESTAPIPort = [], env_MetadataLookbackInterval = [] \<rparr>,
       strconv_ParseUint = (\<lambda>str. (0, Some (Error ''invalid syntax''))),
       model_ParseDuration = (\<lambda>str. (0, Some (Error ''not a valid duration string''))),
       net_url_Parse = (\<lambda>u. None) \<rparr>"

definition params_other :: DidChangeConfigurationParams where
  "params_other = \<lparr> Settings = SettingsOther \<rparr>"

definition params_unreachable :: DidChangeConfigurationParams where
  "params_unreachable =
     \<lparr> Settings = SettingsMap
         [''promql'' \<mapsto> [''url'' \<mapsto> ''http://prometheus:9090'',
                          ''metadataLookbackInterval'' \<mapsto> ''soon'']] \<rparr>"

text \<open>
  For the HTTP adapter: a number parser for digit strings, an encoder, a language
  server whose every operation fails, the compilation of a text that is a single metric
  name, and a handler over the server modelled from the spec.
\<close>

definition digits_ParseFloat :: "string \<Rightarrow> error + int" where
  "digits_ParseFloat str =
     (if str \<noteq> [] \<and> list_all (\<lambda>c. 48 \<le> (of_char c :: nat) \<and> (of_char c :: nat) \<le> 57) str
      then Inr (foldl (\<lambda>a c. 10 * a + (int (of_char c) - 48)) 0 str)
      else Inl (Error ''invalid syntax''))"

definition null_encode :: "(string list, string, int) Content \<Rightarrow> error + string" where
  "null_encode content = Inr ''null''"

definition refusingServer :: "(unit, string list, string, int) HeadlessServer" where
  "refusingServer =
     \<lparr> hs_DidOpen = (\<lambda>st item. (st, Some (Error ''context canceled''))),
       hs_DidClose = (\<lambda>st uri. (st, None)),
       hs_GetDiagnostics = (\<lambda>st uri. (st, None, Some (Error ''context canceled''))),
       hs_Hover = (\<lambda>st params. (st, None, Some (Error ''context canceled''))),
       hs_Completion = (\<lambda>st params. (st, None, Some (Error ''context canceled''))) \<rparr>"

definition compile_metric :: "string \<Rightarrow> int Document" where
  "compile_metric text =
     singleLineDocument (length text) (VectorSelector text 1 (1 + int (length text)))"

definition some_headless :: "(int server, string list, string, int) HeadlessServer" where
  "some_headless = headlessServer some_Functions compile_metric (\<lambda>doc. []) (\<lambda>doc position. None)"

definition some_handler :: "int server langserverHandler" where
  "some_handler =
     \<lparr> langserver = \<lparr> cache = Map.empty, prometheus = Some api_up \<rparr>, requestCounter = 0 \<rparr>"

definition GET :: "string \<Rightarrow> (string \<times> string) list \<Rightarrow> Request" where
  "GET path params = \<lparr> Path = path, Query = map_of (map (\<lambda>(k, v). (k, [v])) params) \<rparr>"

section \<open>Auxiliary facts\<close>

lemmas example_defs =
  singleLineDocument_def doc_up_def doc_padded_def doc_rate_def api_up_def api_down_def
  server_with_def cursor_at_def some_Functions_def GetDocument_def

lemma getCompletions_up:
  "getCompletions some_Functions (server_with doc_up (Some api_up)) doc_up (VectorSelector ''up'' 1 3) =
     (Some \<lparr> IsIncomplete = True,
        Items = [valueItem \<lparr> Start = \<lparr> Line = 0, Character = 0 \<rparr>, End = \<lparr> Line = 0, Character = 2 \<rparr> \<rparr> ''up'',
                 valueItem \<lparr> Start = \<lparr> Line = 0, Character = 0 \<rparr>, End = \<lparr> Line = 0, Character = 2 \<rparr> \<rparr> ''up_total''] \<rparr>, None)"
  by code_simp

lemmas config_example_defs =
  ctl_url_Parse_def some_ParseDuration_def some_fetch_def some_externals_def
  some_config_server_def changeSource_def refresh_def

lemma setURL_invalid:
  "settings ''url'' = Some u \<Longrightarrow> url_Parse ext u = Some err \<Longrightarrow>
   setURLFromChangeConfiguration ext s settings = (s, Some err)"
  by (simp add: setURLFromChangeConfiguration_def)

lemma setURL_unreachable:
  "settings ''url'' = Some u \<Longrightarrow> url_Parse ext u = None \<Longrightarrow>
   ChangeDataSource ext (metadataService s) u = (ms, Some err) \<Longrightarrow>
   setURLFromChangeConfiguration ext s settings =
     (s\<lparr> metadataService := ms,
         client := client s @
           [ShowMessage TypeError
              (''Failed to connect to Prometheus at '' @ u @ '':'' @ [CHR 0x0A, CHR 0x0A] @
               Error_msg err @ '' '')] \<rparr>,
      Some err)"
  by (simp add: setURLFromChangeConfiguration_def connectPrometheus_def send_def)

lemma setInterval_client:
  "client (fst (setMetadataLookbackIntervalFromChangeConfiguration ext s settings)) = client s"
  by (simp add: setMetadataLookbackIntervalFromChangeConfiguration_def
      split: option.splits prod.splits)

lemma DidChange_promql:
  assumes "Settings p = SettingsMap m" and "m ''promql'' = Some cfg"
  shows "DidChangeConfiguration ext s (Some p) =
     (let s1 = send s (LogMessage TypeInfo
                  (''Received notification change: '' @ Sprint_params ext p @ [CHR 0x0A]));
          r2 = setURLFromChangeConfiguration ext s1 cfg;
          s3 = (case snd r2 of
                  Some e \<Rightarrow> send (fst r2) (LogMessage TypeInfo (Error_msg e))
                | None \<Rightarrow> fst r2);
          r4 = setMetadataLookbackIntervalFromChangeConfiguration ext s3 cfg;
          s5 = (case snd r4 of
                  Some e \<Rightarrow> send (fst r4) (LogMessage TypeInfo (Error_msg e))
                | None \<Rightarrow> fst r4)
      in (s5, None))"
  using assms by (simp add: DidChangeConfiguration_def Let_def case_prod_beta)

lemma client_send: "client (send s m) = client s @ [m]"
  by (simp add: send_def)

lemma metadataService_send: "metadataService (send s m) = metadataService s"
  by (simp add: send_def)

lemma setInterval_snd:
  "snd (setMetadataLookbackIntervalFromChangeConfiguration ext s settings) =
     (case settings ''metadataLookbackInterval'' of
        None \<Rightarrow> None
      | Some d \<Rightarrow> snd (ParseDuration ext d))"
  by (cases "settings ''metadataLookbackInterval''")
     (auto simp: setMetadataLookbackIntervalFromChangeConfiguration_def
        split: prod.splits option.splits)

lemma DidChange_promql_client:
  assumes "Settings p = SettingsMap m" and "m ''promql'' = Some cfg"
  shows "client (fst (DidChangeConfiguration ext s (Some p))) =
     client (fst (setURLFromChangeConfiguration ext
        (send s (LogMessage TypeInfo
           (''Received notification change: '' @ Sprint_params ext p @ [CHR 0x0A]))) cfg)) @
     (case snd (setURLFromChangeConfiguration ext
        (send s (LogMessage TypeInfo
           (''Received notification change: '' @ Sprint_params ext p @ [CHR 0x0A]))) cfg) of
        None \<Rightarrow> []
      | Some e \<Rightarrow> [LogMessage TypeInfo (Error_msg e)]) @
     (case cfg ''metadataLookbackInterval'' of
        None \<Rightarrow> []
      | Some d \<Rightarrow>
          (case snd (ParseDuration ext d) of
             None \<Rightarrow> []
           | Some e \<Rightarrow> [LogMessage TypeInfo (Error_msg e)]))"
  unfolding DidChange_promql [OF assms] Let_def
  by (simp add: setInterval_snd setInterval_client client_send split: option.splits)

lemma Validate_ok_iff:
  "snd (Validate parse c) = None \<longleftrightarrow>
     (PrometheusURL c = [] \<or> parse (PrometheusURL c) = None) \<and>
     (LogFormat c = [] \<or> mapLogFormat (LogFormat c))"
  by (auto simp: Validate_def Let_def split: option.splits)

lemma Validate_interval:
  "snd (Validate parse c) = None \<Longrightarrow>
   MetadataLookbackInterval (fst (Validate parse c)) =
     (if MetadataLookbackInterval c \<le> 0 then defaultInterval else MetadataLookbackInterval c)"
  by (auto simp: Validate_def Let_def split: option.splits if_splits)

lemma Validate_bad_url:
  "PrometheusURL c \<noteq> [] \<Longrightarrow> parse (PrometheusURL c) = Some err \<Longrightarrow>
   Validate parse c = (c, Some err)"
  by (simp add: Validate_def)

lemma defaultInterval_positive: "0 < defaultInterval"
  by (simp add: defaultInterval_def Second_def)

lemma UnmarshalYAML_Validate:
  "UnmarshalYAML parse c0 (Inr tmp) =
     (if snd (Validate parse tmp) = None then (fst (Validate parse tmp), None)
      else (c0, snd (Validate parse tmp)))"
  by (cases "Validate parse tmp") (auto simp: UnmarshalYAML_def)

lemma unmarshalENV_Validate:
  assumes "env_RESTAPIPort conf = [] \<or> snd (parseUint (env_RESTAPIPort conf)) = None"
    and "env_MetadataLookbackInterval conf = [] \<or>
         snd (parseDuration (env_MetadataLookbackInterval conf)) = None"
  shows "unmarshalENV parse parseUint parseDuration c0 (Inr conf) =
     Validate parse
       ((if env_MetadataLookbackInterval conf = []
         then (if env_RESTAPIPort conf = [] then c0
               else c0\<lparr> RESTAPIPort := fst (parseUint (env_RESTAPIPort conf)) \<rparr>)
         else (if env_RESTAPIPort conf = [] then c0
               else c0\<lparr> RESTAPIPort := fst (parseUint (env_RESTAPIPort conf)) \<rparr>)
              \<lparr> MetadataLookbackInterval :=
                  fst (parseDuration (env_MetadataLookbackInterval conf)) \<rparr>)
        \<lparr> RPCTrace := env_RPCTrace conf,
          PrometheusURL := env_PrometheusURL conf,
          LogFormat := env_LogFormat conf \<rparr>)"
  using assms
  by (cases "parseUint (env_RESTAPIPort conf)";
      cases "parseDuration (env_MetadataLookbackInterval conf)")
     (auto simp: unmarshalENV_def Let_def)

lemma ServeHTTP_no_expr:
  assumes "Path r = ''/diagnostics'' \<or> Path r = ''/hover'' \<or> Path r = ''/completion''"
    and "Query r ''expr'' = None \<or> Query r ''expr'' = Some []"
  shows "ServeHTTP ParseFloat encode s h r =
     (h\<lparr> requestCounter := requestCounter h + 1 \<rparr>, http_Error ''Param expr is not specified'' 400)"
  using assms by (auto simp: ServeHTTP_def Let_def)

lemma ServeHTTP_open_failed:
  assumes "Path r = ''/diagnostics'' \<or> Path r = ''/hover'' \<or> Path r = ''/completion''"
    and "Query r ''expr'' = Some (expr # exprs)"
    and "hs_DidOpen s (langserver h)
           \<lparr> DocURI = requestID (requestCounter h + 1), LanguageID = ''promql'', Version = 0,
             Text = expr \<rparr> = (st1, Some err)"
  shows "ServeHTTP ParseFloat encode s h r =
     (h\<lparr> requestCounter := requestCounter h + 1,
         langserver := fst (hs_DidClose s st1 (requestID (requestCounter h + 1))) \<rparr>,
      http_Error (Error_msg (Wrapf err ''failed to open document'')) 500)"
  using assms by (auto simp: ServeHTTP_def Let_def split: prod.splits)

lemma ServeHTTP_opened:
  assumes "Query r ''expr'' = Some (expr # exprs)"
    and "hs_DidOpen s (langserver h)
           \<lparr> DocURI = requestID (requestCounter h + 1), LanguageID = ''promql'', Version = 0,
             Text = expr \<rparr> = (st1, None)"
  shows "Path r = ''/diagnostics'' \<Longrightarrow>
      ServeHTTP ParseFloat encode s h r =
        (h\<lparr> requestCounter := requestCounter h + 1,
            langserver := fst (hs_DidClose s
              (fst (diagnosticsHandler encode s (requestID (requestCounter h + 1)) st1 r))
              (requestID (requestCounter h + 1))) \<rparr>,
         snd (diagnosticsHandler encode s (requestID (requestCounter h + 1)) st1 r))"
    and "Path r = ''/hover'' \<Longrightarrow>
      ServeHTTP ParseFloat encode s h r =
        (h\<lparr> requestCounter := requestCounter h + 1,
            langserver := fst (hs_DidClose s
              (fst (hoverHandler ParseFloat encode s (requestID (requestCounter h + 1)) st1 r))
              (requestID (requestCounter h + 1))) \<rparr>,
         snd (hoverHandler ParseFloat encode s (requestID (requestCounter h + 1)) st1 r))"
    and "Path r = ''/completion'' \<Longrightarrow>
      ServeHTTP ParseFloat encode s h r =
        (h\<lparr> requestCounter := requestCounter h + 1,
            langserver := fst (hs_DidClose s
              (fst (completionHandler ParseFloat encode s (requestID (requestCounter h + 1)) st1 r))
              (requestID (requestCounter h + 1))) \<rparr>,
         snd (completionHandler ParseFloat encode s (requestID (requestCounter h + 1)) st1 r))"
  using assms by (auto simp: ServeHTTP_def Let_def split: prod.splits)

lemma getPositionFromURL_fails_iff:
  "isl (getPositionFromURL ParseFloat query) \<longleftrightarrow>
     query ''line'' = None \<or> query ''line'' = Some [] \<or>
     (\<exists>l ls. query ''line'' = Some (l # ls) \<and> isl (ParseFloat l)) \<or>
     query ''char'' = None \<or> query ''char'' = Some [] \<or>
     (\<exists>c cs. query ''char'' = Some (c # cs) \<and> isl (ParseFloat c))"
  by (auto simp: getPositionFromURL_def split: option.splits list.splits sum.splits)

lemma requestID_1: "requestID (0 + 1) = ''1.promql''"
  by code_simp

lemma requestID_one: "requestID 1 = ''1.promql''"
  by code_simp

lemma digits_ParseFloat_5: "digits_ParseFloat ''5'' = Inr 5"
  by code_simp

lemma digits_ParseFloat_0: "digits_ParseFloat ''0'' = Inr 0"
  by code_simp

lemma digits_ParseFloat_x: "digits_ParseFloat ''x'' = Inl (Error ''invalid syntax'')"
  by code_simp

section \<open>The claims\<close>

subsection \<open>C1: where Completion looks for the node\<close>

text \<open>
  Claim C1, as stated (the node containing the cursor first, the offset before the
  cursor only if there is none), fails. In the document \<^verbatim>\<open>up\<close> with the cursor at the
  start of the line, the node at the cursor is the selector \<^verbatim>\<open>up\<close>, for which
  \<^verbatim>\<open>getCompletions\<close> has two candidates; \<^verbatim>\<open>Completion\<close> looks at the offset before the
  cursor, finds no query there and returns nothing.
\<close>

theorem Completion_ignores_node_at_cursor:
  "locate_spec doc_up 1 = Some (VectorSelector ''up'' 1 3) \<and>
   getCompletions some_Functions (server_with doc_up (Some api_up)) doc_up (VectorSelector ''up'' 1 3) =
     (Some \<lparr> IsIncomplete = True,
        Items = [valueItem \<lparr> Start = \<lparr> Line = 0, Character = 0 \<rparr>, End = \<lparr> Line = 0, Character = 2 \<rparr> \<rparr> ''up'',
                 valueItem \<lparr> Start = \<lparr> Line = 0, Character = 0 \<rparr>, End = \<lparr> Line = 0, Character = 2 \<rparr> \<rparr> ''up_total''] \<rparr>, None) \<and>
   ProtocolPositionToTokenPos doc_up (Position (cursor_at 0 0)) = Inr 1 \<and>
   Completion some_Functions (server_with doc_up (Some api_up)) (cursor_at 0 0) = (None, None)"
  by (simp add: getCompletions_up)
     (simp add: Completion_def locate_spec_def List.map_filter_def example_defs)

text \<open>
  Claim C1, amended: for an open document and a position that converts to \<open>pos\<close>,
  \<^verbatim>\<open>Completion\<close> first fetches the Compiled Query at \<open>pos - 1\<close>; if there is none it
  returns nil without an error. Otherwise it looks for the smallest node at
  \<open>pos - 1\<close>, in that query. If there is none it returns nil without an error and
  without a second lookup. If \<^verbatim>\<open>getCompletions\<close> gives a list and no error for that
  node, this list is the result. Otherwise (nil list or an error) the lookup is
  repeated at \<open>pos\<close>, in the same query, and the result is that of \<^verbatim>\<open>getCompletions\<close>
  for the node found there, or nil if there is none.
\<close>

theorem Completion_looks_behind_cursor_first:
  assumes "GetDocument (cache s) (URI params) = Inr doc"
    and "ProtocolPositionToTokenPos doc (Position params) = Inr pos"
  shows "(GetQuery doc (pos - 1) = Inl qerr \<longrightarrow>
            Completion Functions s params = (None, None)) \<and>
         (GetQuery doc (pos - 1) = Inr query \<and>
          getSmallestSurroundingNode (Ast query) (pos - 1) = None \<longrightarrow>
            Completion Functions s params = (None, None)) \<and>
         (GetQuery doc (pos - 1) = Inr query \<and>
          getSmallestSurroundingNode (Ast query) (pos - 1) = Some node \<and>
          getCompletions Functions s doc node = (Some c, None) \<longrightarrow>
            Completion Functions s params = (Some c, None)) \<and>
         (GetQuery doc (pos - 1) = Inr query \<and>
          getSmallestSurroundingNode (Ast query) (pos - 1) = Some node \<and>
          (fst (getCompletions Functions s doc node) = None \<or>
           snd (getCompletions Functions s doc node) \<noteq> None) \<longrightarrow>
            Completion Functions s params =
              (case getSmallestSurroundingNode (Ast query) pos of
                 None \<Rightarrow> (None, None)
               | Some node' \<Rightarrow> getCompletions Functions s doc node'))"
  using assms
  by (auto simp: Completion_def split: option.splits prod.splits)

text \<open>
  Witness for C1: the four cases at concrete inputs. In \<^verbatim>\<open>up\<close> with the cursor at
  the start of the line, no query is found before the cursor. In \<^verbatim>\<open> up\<close> with the cursor
  on \<^verbatim>\<open>u\<close>, no node contains the blank before it; in \<^verbatim>\<open>up\<close> with the cursor after
  \<^verbatim>\<open>u\<close>, the node before the cursor has candidates; in \<^verbatim>\<open>up\<close> with the cursor at the
  end and the endpoint unreachable, the lookup is repeated at the cursor, where no node
  is.
\<close>

theorem Completion_looks_behind_cursor_first_witness:
  "Completion some_Functions (server_with doc_up (Some api_up)) (cursor_at 0 0) = (None, None) \<and>
   Completion some_Functions (server_with doc_padded (Some api_up)) (cursor_at 0 1) = (None, None) \<and>
   Completion some_Functions (server_with doc_up (Some api_up)) (cursor_at 0 1) =
     getCompletions some_Functions (server_with doc_up (Some api_up)) doc_up (VectorSelector ''up'' 1 3) \<and>
   Completion some_Functions (server_with doc_up (Some api_down)) (cursor_at 0 2) = (None, None)"
proof -
  have z: "Completion some_Functions (server_with doc_up (Some api_up)) (cursor_at 0 0) = (None, None)"
    using Completion_looks_behind_cursor_first
      [where s = "server_with doc_up (Some api_up)" and params = "cursor_at 0 0" and doc = doc_up
         and pos = 1 and qerr = "Error ''no query found at given position''"
         and Functions = some_Functions]
    by (simp add: example_defs)
  have a: "Completion some_Functions (server_with doc_padded (Some api_up)) (cursor_at 0 1) = (None, None)"
    using Completion_looks_behind_cursor_first
      [where s = "server_with doc_padded (Some api_up)" and params = "cursor_at 0 1"
         and doc = doc_padded and pos = 2 and query = "\<lparr> Ast = VectorSelector ''up'' 2 4 \<rparr>"
         and Functions = some_Functions]
    by (simp add: example_defs)
  have b: "Completion some_Functions (server_with doc_up (Some api_up)) (cursor_at 0 1) =
     getCompletions some_Functions (server_with doc_up (Some api_up)) doc_up (VectorSelector ''up'' 1 3)"
    using Completion_looks_behind_cursor_first
      [where s = "server_with doc_up (Some api_up)" and params = "cursor_at 0 1" and doc = doc_up
         and pos = 2 and query = "\<lparr> Ast = VectorSelector ''up'' 1 3 \<rparr>"
         and node = "VectorSelector ''up'' 1 3" and Functions = some_Functions
         and c = "\<lparr> IsIncomplete = True,
        Items = [valueItem \<lparr> Start = \<lparr> Line = 0, Character = 0 \<rparr>, End = \<lparr> Line = 0, Character = 2 \<rparr> \<rparr> ''up'',
                 valueItem \<lparr> Start = \<lparr> Line = 0, Character = 0 \<rparr>, End = \<lparr> Line = 0, Character = 2 \<rparr> \<rparr> ''up_total''] \<rparr>"]
    by (simp add: getCompletions_up) (simp add: example_defs)
  have c: "Completion some_Functions (server_with doc_up (Some api_down)) (cursor_at 0 2) = (None, None)"
    using Completion_looks_behind_cursor_first
      [where s = "server_with doc_up (Some api_down)" and params = "cursor_at 0 2" and doc = doc_up
         and pos = 3 and query = "\<lparr> Ast = VectorSelector ''up'' 1 3 \<rparr>"
         and node = "VectorSelector ''up'' 1 3" and Functions = some_Functions]
    by (simp add: getCompletions_def example_defs)
  from z a b c show ?thesis by simp
qed

subsection \<open>C2: matching and order of the candidates\<close>

text \<open>
  Claim C2, as stated, fails. The token \<^verbatim>\<open>UP\<close> matches the metric name \<^verbatim>\<open>up\<close>
  case-insensitively, but no candidate is returned for it; and with the function table
  visited in the order round, rate, abs, the token \<^verbatim>\<open>r\<close> gets round before rate, which
  is not alphabetical.
\<close>

theorem getCompletions_case_sensitive_unsorted:
  "specPrefixMatch ''up'' ''UP'' \<and>
   getCompletions some_Functions (server_with doc_UP (Some api_up)) doc_UP
       (VectorSelector ''UP'' 1 3) =
     (Some \<lparr> IsIncomplete = True, Items = [] \<rparr>, None) \<and>
   getCompletions some_Functions (server_with doc_r (Some api_up)) doc_r
       (VectorSelector ''r'' 1 2) =
     (Some \<lparr> IsIncomplete = True,
        Items = [functionItem \<lparr> Start = \<lparr> Line = 0, Character = 0 \<rparr>,
                                 End = \<lparr> Line = 0, Character = 1 \<rparr> \<rparr> ''round'',
                 functionItem \<lparr> Start = \<lparr> Line = 0, Character = 0 \<rparr>,
                                 End = \<lparr> Line = 0, Character = 1 \<rparr> \<rparr> ''rate''] \<rparr>, None) \<and>
   \<not> alphabetical [''round'', ''rate'']"
  by code_simp

text \<open>
  Claim C2, amended: for a vector or matrix selector named \<open>nm\<close> at position \<open>b\<close>,
  with an endpoint that answers \<open>allNames\<close> and positions that convert, the result is a
  list marked incomplete and no error. Its items are, in this order: the function names
  whose lower-cased form starts with \<open>nm\<close> as typed, in the order in which the function
  table is visited, each of kind 3 with sort text \<^verbatim>\<open>__1__\<close> and the name; then the
  metric names that start with \<open>nm\<close> (case-sensitively), in the order of the endpoint's
  answer, each of kind 12 with sort text \<^verbatim>\<open>__3__\<close> and the name. There is no fuzzy
  matching. Every item's text edit covers the range from the node's start to the node's
  start plus the length of \<open>nm\<close>.
\<close>

theorem getCompletions_prefix_matches_in_table_order:
  assumes "node = VectorSelector nm b e \<or> node = MatrixSelector nm b e"
    and "prometheus s = Some api"
    and "api ''__name__'' = Inr allNames"
    and "PosToProtocolPosition doc b = Inr start"
    and "PosToProtocolPosition doc (b + int (length nm)) = Inr end'"
  shows "\<exists>items.
     getCompletions Functions s doc node =
       (Some \<lparr> IsIncomplete = True, Items = items \<rparr>, None) \<and>
     map Label items =
       filter (\<lambda>name. HasPrefix (ToLower name) nm) Functions @
       filter (\<lambda>name. HasPrefix name nm) allNames \<and>
     map Kind items =
       replicate (length (filter (\<lambda>name. HasPrefix (ToLower name) nm) Functions)) 3 @
       replicate (length (filter (\<lambda>name. HasPrefix name nm) allNames)) 12 \<and>
     map SortText items =
       map (\<lambda>name. ''__1__'' @ name) (filter (\<lambda>name. HasPrefix (ToLower name) nm) Functions) @
       map (\<lambda>name. ''__3__'' @ name) (filter (\<lambda>name. HasPrefix name nm) allNames) \<and>
     map (\<lambda>it. Range (TextEdit it)) items =
       replicate (length items) \<lparr> Start = start, End = end' \<rparr>"
proof -
  let ?fs = "filter (\<lambda>name. HasPrefix (ToLower name) nm) Functions"
  let ?ns = "filter (\<lambda>name. HasPrefix name nm) allNames"
  let ?r = "\<lparr> Start = start, End = end' \<rparr>"
  let ?items = "completionItems Functions allNames ?r nm"
  have res: "getCompletions Functions s doc node =
       (Some \<lparr> IsIncomplete = True, Items = ?items \<rparr>, None)"
    using assms by (auto simp: getCompletions_def)
  have items: "?items = map (functionItem ?r) ?fs @ map (valueItem ?r) ?ns"
    by (simp add: completionItems_def)
  have labels: "map Label ?items = ?fs @ ?ns"
    unfolding items by (simp add: functionItem_def valueItem_def comp_def)
  have kinds: "map Kind ?items = replicate (length ?fs) 3 @ replicate (length ?ns) 12"
    unfolding items by (simp add: functionItem_def valueItem_def comp_def map_replicate_const)
  have sorts: "map SortText ?items =
      map (\<lambda>name. ''__1__'' @ name) ?fs @ map (\<lambda>name. ''__3__'' @ name) ?ns"
    unfolding items by (simp add: functionItem_def valueItem_def comp_def)
  have ranges: "map (\<lambda>it. Range (TextEdit it)) ?items = replicate (length ?items) ?r"
    unfolding items
    by (simp add: functionItem_def valueItem_def comp_def map_replicate_const replicate_add)
  from res labels kinds sorts ranges show ?thesis by blast
qed

text \<open>
  Witness for C2: the matrix selector of \<^verbatim>\<open>rate(up[5m])\<close> gets the two metric names
  that start with \<^verbatim>\<open>up\<close>, with the edit range of columns 5 to 7.
\<close>

theorem getCompletions_prefix_matches_in_table_order_witness:
  "\<exists>items.
     getCompletions some_Functions (server_with doc_rate (Some api_up)) doc_rate
         (MatrixSelector ''up'' 6 12) =
       (Some \<lparr> IsIncomplete = True, Items = items \<rparr>, None) \<and>
     map Label items = [''up'', ''up_total''] \<and>
     map Kind items = [12, 12] \<and>
     map SortText items = [''__3__up'', ''__3__up_total''] \<and>
     map (\<lambda>it. Range (TextEdit it)) items =
       replicate (length items)
         \<lparr> Start = \<lparr> Line = 0, Character = 5 \<rparr>, End = \<lparr> Line = 0, Character = 7 \<rparr> \<rparr>"
proof -
  have fs: "filter (\<lambda>name. HasPrefix (ToLower name) ''up'') some_Functions = []"
    by code_simp
  have ns: "filter (\<lambda>name. HasPrefix name ''up'') [''up'', ''up_total'', ''go_info''] =
      [''up'', ''up_total'']"
    by code_simp
  have h1: "MatrixSelector ''up'' 6 12 = VectorSelector ''up'' 6 12 \<or>
      MatrixSelector ''up'' 6 12 = MatrixSelector ''up'' 6 12"
    by simp
  have h2: "prometheus (server_with doc_rate (Some api_up)) = Some api_up"
    by (simp add: server_with_def)
  have h3: "api_up ''__name__'' = Inr [''up'', ''up_total'', ''go_info'']"
    by (simp add: api_up_def)
  have h4: "PosToProtocolPosition doc_rate 6 = Inr \<lparr> Line = 0, Character = 5 \<rparr>"
    by (simp add: doc_rate_def singleLineDocument_def)
  have h5: "PosToProtocolPosition doc_rate (6 + int (length ''up'')) =
      Inr \<lparr> Line = 0, Character = 7 \<rparr>"
    by (simp add: doc_rate_def singleLineDocument_def)
  from getCompletions_prefix_matches_in_table_order [OF h1 h2 h3 h4 h5, of some_Functions]
  show ?thesis
    unfolding fs ns by simp
qed

subsection \<open>C3: an unreachable endpoint\<close>

text \<open>
  Claim C3, as stated, fails: with the cursor inside \<^verbatim>\<open>up\<close> and the endpoint
  unreachable, \<^verbatim>\<open>Completion\<close> returns the lookup's error to its caller.
\<close>

theorem Completion_returns_lookup_error:
  "api_down ''__name__'' = Inl (Error ''connection refused'') \<and>
   Completion some_Functions (server_with doc_up (Some api_down)) (cursor_at 0 1) =
     (None, Some (Error ''connection refused''))"
  by code_simp

text \<open>
  Claim C3, amended: when the label-values lookup fails with \<open>err\<close>,
  \<^verbatim>\<open>getCompletions\<close> returns nil and \<open>err\<close> for every selector node. \<^verbatim>\<open>Completion\<close>
  ignores the error of the node before the cursor and repeats the lookup at the cursor:
  it returns nil and no error if no node contains the cursor or the node there is not a
  selector, and nil and \<open>err\<close> if the node there is a selector. It never returns a list.
\<close>

theorem lookup_failure_absorbed_only_behind_cursor:
  assumes "prometheus s = Some api"
    and "api ''__name__'' = Inl err"
  shows "getCompletions Functions s doc (VectorSelector nm b e) = (None, Some err) \<and>
         getCompletions Functions s doc (MatrixSelector nm b e) = (None, Some err) \<and>
         (GetDocument (cache s) (URI params) = Inr doc \<and>
          ProtocolPositionToTokenPos doc (Position params) = Inr pos \<and>
          GetQuery doc (pos - 1) = Inr query \<and>
          getSmallestSurroundingNode (Ast query) (pos - 1) = Some node \<longrightarrow>
          Completion Functions s params =
            (case getSmallestSurroundingNode (Ast query) pos of
               None \<Rightarrow> (None, None)
             | Some (OtherNode b' e' cs) \<Rightarrow> (None, None)
             | Some (VectorSelector nm' b' e') \<Rightarrow> (None, Some err)
             | Some (MatrixSelector nm' b' e') \<Rightarrow> (None, Some err)))"
proof -
  have sel: "\<And>doc nm b e. getCompletions Functions s doc (VectorSelector nm b e) = (None, Some err)"
    "\<And>doc nm b e. getCompletions Functions s doc (MatrixSelector nm b e) = (None, Some err)"
    using assms by (simp_all add: getCompletions_def)
  have oth: "\<And>doc b e cs. getCompletions Functions s doc (OtherNode b e cs) = (None, None)"
    by (simp add: getCompletions_def)
  have never: "fst (getCompletions Functions s doc node) = None"
    by (cases node) (simp_all add: sel oth)
  have "Completion Functions s params =
              (case getSmallestSurroundingNode (Ast query) pos of
                 None \<Rightarrow> (None, None)
               | Some (OtherNode b' e' cs) \<Rightarrow> (None, None)
               | Some (VectorSelector nm' b' e') \<Rightarrow> (None, Some err)
               | Some (MatrixSelector nm' b' e') \<Rightarrow> (None, Some err))"
    if "GetDocument (cache s) (URI params) = Inr doc"
      "ProtocolPositionToTokenPos doc (Position params) = Inr pos"
      "GetQuery doc (pos - 1) = Inr query"
      "getSmallestSurroundingNode (Ast query) (pos - 1) = Some node"
  proof -
    obtain r where r: "getCompletions Functions s doc node = (None, r)"
      using never by (cases "getCompletions Functions s doc node") simp
    show ?thesis
      using that r
      by (simp add: Completion_def sel oth split: option.splits Node.splits)
  qed
  with sel show ?thesis by blast
qed

text \<open>
  Witness for C3: the matrix selector of \<^verbatim>\<open>rate(up[5m])\<close> with the cursor after
  \<^verbatim>\<open>u\<close> and the endpoint unreachable.
\<close>

theorem lookup_failure_absorbed_only_behind_cursor_witness:
  "getCompletions some_Functions (server_with doc_rate (Some api_down)) doc_rate
       (MatrixSelector ''up'' 6 12) = (None, Some (Error ''connection refused'')) \<and>
   Completion some_Functions (server_with doc_rate (Some api_down)) (cursor_at 0 6) =
     (None, Some (Error ''connection refused''))"
proof -
  have p: "prometheus (server_with doc_rate (Some api_down)) = Some api_down"
    by (simp add: server_with_def)
  have d: "api_down ''__name__'' = Inl (Error ''connection refused'')"
    by (simp add: api_down_def)
  have h: "GetDocument (cache (server_with doc_rate (Some api_down))) (URI (cursor_at 0 6)) =
        Inr doc_rate \<and>
      ProtocolPositionToTokenPos doc_rate (Position (cursor_at 0 6)) = Inr 7 \<and>
      GetQuery doc_rate (7 - 1) = Inr \<lparr> Ast = OtherNode 1 13 [MatrixSelector ''up'' 6 12] \<rparr> \<and>
      getSmallestSurroundingNode (Ast \<lparr> Ast = OtherNode 1 13 [MatrixSelector ''up'' 6 12] \<rparr>)
        (7 - 1) = Some (MatrixSelector ''up'' 6 12)"
    by (simp add: example_defs)
  have n: "getSmallestSurroundingNode (Ast \<lparr> Ast = OtherNode 1 13 [MatrixSelector ''up'' 6 12] \<rparr>) 7 =
      Some (MatrixSelector ''up'' 6 12)"
    by simp
  from lookup_failure_absorbed_only_behind_cursor
    [OF p d, of some_Functions doc_rate "''up''" 6 12 "cursor_at 0 6" 7
      "\<lparr> Ast = OtherNode 1 13 [MatrixSelector ''up'' 6 12] \<rparr>" "MatrixSelector ''up'' 6 12"]
    h n
  show ?thesis by simp
qed

subsection \<open>C4: a position outside the document\<close>

text \<open>
  Claim C4, as stated, fails: line 5 of the one-line document \<^verbatim>\<open>up\<close> is out of range,
  the conversion fails, and \<^verbatim>\<open>Completion\<close> returns nil and no error.
\<close>

theorem Completion_absorbs_position_failure:
  "ProtocolPositionToTokenPos doc_up (Position (cursor_at 5 0)) =
     Inl (Error ''position out of range'') \<and>
   Completion some_Functions (server_with doc_up (Some api_up)) (cursor_at 5 0) = (None, None)"
  by code_simp

text \<open>
  Claim C4, amended: when the document is open and the conversion of the position
  fails, \<^verbatim>\<open>Completion\<close> returns a nil list and a nil error; the failure is not passed
  to the caller. When the document is not open, the error of \<^verbatim>\<open>GetDocument\<close> is
  returned to the caller.
\<close>

theorem Completion_position_failure_yields_nil:
  "(GetDocument (cache s) (URI params) = Inl err \<longrightarrow>
      Completion Functions s params = (None, Some err)) \<and>
   (GetDocument (cache s) (URI params) = Inr doc \<and>
    ProtocolPositionToTokenPos doc (Position params) = Inl perr \<longrightarrow>
      Completion Functions s params = (None, None))"
  by (simp add: Completion_def)

text \<open>
  Witness for C4: the request of the counterexample, and a request for a document that
  is not open.
\<close>

theorem Completion_position_failure_yields_nil_witness:
  "ProtocolPositionToTokenPos doc_up (Position (cursor_at 5 0)) =
     Inl (Error ''position out of range'') \<and>
   Completion some_Functions (server_with doc_up (Some api_up)) (cursor_at 5 0) = (None, None) \<and>
   Completion some_Functions (server_with doc_up (Some api_up))
       \<lparr> URI = ''other.promql'', Position = \<lparr> Line = 0, Character = 0 \<rparr> \<rparr> =
     (None, Some (Error ''document not found''))"
proof -
  have a: "GetDocument (cache (server_with doc_up (Some api_up))) (URI (cursor_at 5 0)) = Inr doc_up"
    by (simp add: example_defs)
  have b: "ProtocolPositionToTokenPos doc_up (Position (cursor_at 5 0)) =
     Inl (Error ''position out of range'')"
    by (simp add: example_defs)
  have c: "GetDocument (cache (server_with doc_up (Some api_up)))
      (URI \<lparr> URI = ''other.promql'', Position = \<lparr> Line = 0, Character = (0::int) \<rparr> \<rparr>) =
      Inl (Error ''document not found'')"
    by (simp add: example_defs)
  have x: "Completion some_Functions (server_with doc_up (Some api_up)) (cursor_at 5 0) =
      (None, None)"
    using Completion_position_failure_yields_nil
      [where s = "server_with doc_up (Some api_up)" and params = "cursor_at 5 0" and doc = doc_up
         and perr = "Error ''position out of range''" and Functions = some_Functions] a b
    by simp
  have y: "Completion some_Functions (server_with doc_up (Some api_up))
       \<lparr> URI = ''other.promql'', Position = \<lparr> Line = 0, Character = 0 \<rparr> \<rparr> =
     (None, Some (Error ''document not found''))"
    using Completion_position_failure_yields_nil
      [where s = "server_with doc_up (Some api_up)"
         and params = "\<lparr> URI = ''other.promql'', Position = \<lparr> Line = 0, Character = 0 \<rparr> \<rparr>"
         and err = "Error ''document not found''" and Functions = some_Functions] c
    by simp
  from b x y show ?thesis by simp
qed

subsection \<open>C5: unrecognized contexts\<close>

text \<open>
  Claim C5, as stated, fails. In \<^verbatim>\<open>up+x\<close> with the cursor on \<^verbatim>\<open>+\<close>, the smallest node
  surrounding the cursor is the binary expression, which is neither kind of selector;
  \<^verbatim>\<open>Completion\<close> nevertheless returns the two candidates of the selector \<^verbatim>\<open>up\<close>
  before the cursor. And for the binary expression itself \<^verbatim>\<open>getCompletions\<close> returns a
  nil list, which is not an empty list.
\<close>

theorem Completion_offers_candidates_of_node_before_cursor:
  "ProtocolPositionToTokenPos doc_sum (Position (cursor_at 0 2)) = Inr 3 \<and>
   getSmallestSurroundingNode
       (OtherNode 1 5 [VectorSelector ''up'' 1 3, VectorSelector ''x'' 4 5]) 3 =
     Some (OtherNode 1 5 [VectorSelector ''up'' 1 3, VectorSelector ''x'' 4 5]) \<and>
   Completion some_Functions (server_with doc_sum (Some api_up)) (cursor_at 0 2) =
     (Some \<lparr> IsIncomplete = True,
        Items = [valueItem \<lparr> Start = \<lparr> Line = 0, Character = 0 \<rparr>,
                              End = \<lparr> Line = 0, Character = 2 \<rparr> \<rparr> ''up'',
                 valueItem \<lparr> Start = \<lparr> Line = 0, Character = 0 \<rparr>,
                              End = \<lparr> Line = 0, Character = 2 \<rparr> \<rparr> ''up_total''] \<rparr>, None) \<and>
   getCompletions some_Functions (server_with doc_sum (Some api_up)) doc_sum
       (OtherNode 1 5 [VectorSelector ''up'' 1 3, VectorSelector ''x'' 4 5]) = (None, None) \<and>
   (None :: int CompletionList option) \<noteq> Some \<lparr> IsIncomplete = True, Items = [] \<rparr>"
  by code_simp

text \<open>
  Claim C5, amended: for a node that is neither a vector selector nor a matrix
  selector, \<^verbatim>\<open>getCompletions\<close> returns a nil list (no list, not an empty one) and no
  error. When the node found before the cursor is of this kind, \<^verbatim>\<open>Completion\<close> decides
  by the node at the cursor: nil and no error if there is none or it is of this kind
  too, and the result of \<^verbatim>\<open>getCompletions\<close> for it if it is a selector. When the node
  before the cursor is a selector for which \<^verbatim>\<open>getCompletions\<close> gives a list, that list
  is returned, whatever the node at the cursor is.
\<close>

theorem unrecognized_context_yields_nil:
  "getCompletions Functions s doc (OtherNode b e cs) = (None, None) \<and>
   (GetDocument (cache s) (URI params) = Inr doc \<and>
    ProtocolPositionToTokenPos doc (Position params) = Inr pos \<and>
    GetQuery doc (pos - 1) = Inr query \<and>
    getSmallestSurroundingNode (Ast query) (pos - 1) = Some (OtherNode b1 e1 cs1) \<longrightarrow>
    Completion Functions s params =
      (case getSmallestSurroundingNode (Ast query) pos of
         None \<Rightarrow> (None, None)
       | Some (OtherNode b2 e2 cs2) \<Rightarrow> (None, None)
       | Some (VectorSelector nm2 b2 e2) \<Rightarrow>
           getCompletions Functions s doc (VectorSelector nm2 b2 e2)
       | Some (MatrixSelector nm2 b2 e2) \<Rightarrow>
           getCompletions Functions s doc (MatrixSelector nm2 b2 e2))) \<and>
   (GetDocument (cache s) (URI params) = Inr doc \<and>
    ProtocolPositionToTokenPos doc (Position params) = Inr pos \<and>
    GetQuery doc (pos - 1) = Inr query \<and>
    getSmallestSurroundingNode (Ast query) (pos - 1) = Some node \<and>
    getCompletions Functions s doc node = (Some c, None) \<longrightarrow>
    Completion Functions s params = (Some c, None))"
proof -
  have oth: "\<And>b e cs. getCompletions Functions s doc (OtherNode b e cs) = (None, None)"
    by (simp add: getCompletions_def)
  have a: "GetDocument (cache s) (URI params) = Inr doc \<and>
    ProtocolPositionToTokenPos doc (Position params) = Inr pos \<and>
    GetQuery doc (pos - 1) = Inr query \<and>
    getSmallestSurroundingNode (Ast query) (pos - 1) = Some (OtherNode b1 e1 cs1) \<longrightarrow>
    Completion Functions s params =
      (case getSmallestSurroundingNode (Ast query) pos of
         None \<Rightarrow> (None, None)
       | Some (OtherNode b2 e2 cs2) \<Rightarrow> (None, None)
       | Some (VectorSelector nm2 b2 e2) \<Rightarrow>
           getCompletions Functions s doc (VectorSelector nm2 b2 e2)
       | Some (MatrixSelector nm2 b2 e2) \<Rightarrow>
           getCompletions Functions s doc (MatrixSelector nm2 b2 e2))"
    by (simp add: Completion_def oth split: option.splits Node.splits)
  have b: "GetDocument (cache s) (URI params) = Inr doc \<and>
    ProtocolPositionToTokenPos doc (Position params) = Inr pos \<and>
    GetQuery doc (pos - 1) = Inr query \<and>
    getSmallestSurroundingNode (Ast query) (pos - 1) = Some node \<and>
    getCompletions Functions s doc node = (Some c, None) \<longrightarrow>
    Completion Functions s params = (Some c, None)"
    by (simp add: Completion_def)
  from oth a b show ?thesis by blast
qed

text \<open>
  Witness for C5: the call of \<^verbatim>\<open>rate(up[5m])\<close>; the same document with the cursor
  inside \<^verbatim>\<open>rate\<close>, where the smallest node at both offsets is the call; and \<^verbatim>\<open>up\<close>
  with the cursor after \<^verbatim>\<open>u\<close>, where the node before the cursor has candidates.
\<close>

theorem unrecognized_context_yields_nil_witness:
  "getCompletions some_Functions (server_with doc_rate (Some api_up)) doc_rate
       (OtherNode 1 13 [MatrixSelector ''up'' 6 12]) = (None, None) \<and>
   Completion some_Functions (server_with doc_rate (Some api_up)) (cursor_at 0 2) = (None, None) \<and>
   Completion some_Functions (server_with doc_up (Some api_up)) (cursor_at 0 1) =
     (Some \<lparr> IsIncomplete = True,
        Items = [valueItem \<lparr> Start = \<lparr> Line = 0, Character = 0 \<rparr>,
                              End = \<lparr> Line = 0, Character = 2 \<rparr> \<rparr> ''up'',
                 valueItem \<lparr> Start = \<lparr> Line = 0, Character = 0 \<rparr>,
                              End = \<lparr> Line = 0, Character = 2 \<rparr> \<rparr> ''up_total''] \<rparr>, None)"
proof -
  have a: "getCompletions some_Functions (server_with doc_rate (Some api_up)) doc_rate
       (OtherNode 1 13 [MatrixSelector ''up'' 6 12]) = (None, None)"
    using unrecognized_context_yields_nil
      [where Functions = some_Functions and s = "server_with doc_rate (Some api_up)"
         and doc = doc_rate and b = 1 and e = 13 and cs = "[MatrixSelector ''up'' 6 12]"]
    by blast
  have h: "GetDocument (cache (server_with doc_rate (Some api_up))) (URI (cursor_at 0 2)) =
        Inr doc_rate \<and>
      ProtocolPositionToTokenPos doc_rate (Position (cursor_at 0 2)) = Inr 3 \<and>
      GetQuery doc_rate (3 - 1) = Inr \<lparr> Ast = OtherNode 1 13 [MatrixSelector ''up'' 6 12] \<rparr> \<and>
      getSmallestSurroundingNode (Ast \<lparr> Ast = OtherNode 1 13 [MatrixSelector ''up'' 6 12] \<rparr>)
        (3 - 1) = Some (OtherNode 1 13 [MatrixSelector ''up'' 6 12])"
    by (simp add: example_defs)
  have n: "getSmallestSurroundingNode (Ast \<lparr> Ast = OtherNode 1 13 [MatrixSelector ''up'' 6 12] \<rparr>) 3 =
      Some (OtherNode 1 13 [MatrixSelector ''up'' 6 12])"
    by simp
  have b: "Completion some_Functions (server_with doc_rate (Some api_up)) (cursor_at 0 2) =
      (None, None)"
    using unrecognized_context_yields_nil
      [where Functions = some_Functions and s = "server_with doc_rate (Some api_up)"
         and doc = doc_rate and params = "cursor_at 0 2" and pos = 3
         and query = "\<lparr> Ast = OtherNode 1 13 [MatrixSelector ''up'' 6 12] \<rparr>"
         and ?b1.0 = 1 and ?e1.0 = 13 and ?cs1.0 = "[MatrixSelector ''up'' 6 12]"] h n
    by simp
  have g: "GetDocument (cache (server_with doc_up (Some api_up))) (URI (cursor_at 0 1)) =
        Inr doc_up \<and>
      ProtocolPositionToTokenPos doc_up (Position (cursor_at 0 1)) = Inr 2 \<and>
      GetQuery doc_up (2 - 1) = Inr \<lparr> Ast = VectorSelector ''up'' 1 3 \<rparr> \<and>
      getSmallestSurroundingNode (Ast \<lparr> Ast = VectorSelector ''up'' 1 3 \<rparr>) (2 - 1) =
        Some (VectorSelector ''up'' 1 3)"
    by (simp add: example_defs)
  have c: "Completion some_Functions (server_with doc_up (Some api_up)) (cursor_at 0 1) =
     (Some \<lparr> IsIncomplete = True,
        Items = [valueItem \<lparr> Start = \<lparr> Line = 0, Character = 0 \<rparr>,
                              End = \<lparr> Line = 0, Character = 2 \<rparr> \<rparr> ''up'',
                 valueItem \<lparr> Start = \<lparr> Line = 0, Character = 0 \<rparr>,
                              End = \<lparr> Line = 0, Character = 2 \<rparr> \<rparr> ''up_total''] \<rparr>, None)"
    using unrecognized_context_yields_nil
      [where Functions = some_Functions and s = "server_with doc_up (Some api_up)"
         and doc = doc_up and params = "cursor_at 0 1" and pos = 2
         and query = "\<lparr> Ast = VectorSelector ''up'' 1 3 \<rparr>"
         and node = "VectorSelector ''up'' 1 3"] g getCompletions_up
    by simp
  from a b c show ?thesis by simp
qed

subsection \<open>C6: status codes of the HTTP adapter\<close>

text \<open>
  Claim C6, as stated, fails in its second part: a request to \<^verbatim>\<open>/hover\<close> with
  \<^verbatim>\<open>expr\<close> and without \<^verbatim>\<open>line\<close> is answered with status 500, not 400, when the
  document cannot be opened, because the handler opens the document before it reads the
  position.
\<close>

theorem ServeHTTP_open_failure_precedes_position_check:
  "Query (GET ''/hover'' [(''expr'', ''up'')]) ''line'' = None \<and>
   snd (ServeHTTP digits_ParseFloat null_encode refusingServer
          \<lparr> langserver = (), requestCounter = 0 \<rparr> (GET ''/hover'' [(''expr'', ''up'')])) =
     Response 500 (''failed to open document: context canceled'' @ [CHR 0x0A])"
  by (simp add: ServeHTTP_def Let_def GET_def refusingServer_def http_Error_def Wrapf_def
      hoverHandler_def)

text \<open>
  Claim C6, amended: for a request to \<^verbatim>\<open>/diagnostics\<close>, \<^verbatim>\<open>/hover\<close> or
  \<^verbatim>\<open>/completion\<close>, in this order: if \<^verbatim>\<open>expr\<close> is absent (or has no value) the status
  is 400; otherwise, if the document cannot be opened, the status is 500 and the body is
  the error message prefixed with \<^verbatim>\<open>failed to open document: \<close>; otherwise, if the
  endpoint is position-based and \<^verbatim>\<open>line\<close> or \<^verbatim>\<open>char\<close> is absent or unparsable (which
  is exactly when \<^verbatim>\<open>getPositionFromURL\<close> fails) the status is 400 and the body is the
  position error; otherwise, if the core operation fails, the status is 500 and the body
  is the error message prefixed with the operation's context. Every body ends with a
  newline.
\<close>

theorem ServeHTTP_error_statuses:
  assumes "Path r = ''/diagnostics'' \<or> Path r = ''/hover'' \<or> Path r = ''/completion''"
    and "uri = requestID (requestCounter h + 1)"
    and "hs_DidOpen s (langserver h)
           \<lparr> DocURI = uri, LanguageID = ''promql'', Version = 0, Text = expr \<rparr> =
         (st1, openError)"
  shows
    "(Query r ''expr'' = None \<or> Query r ''expr'' = Some [] \<longrightarrow>
        snd (ServeHTTP ParseFloat encode s h r) =
          Response 400 (''Param expr is not specified'' @ [CHR 0x0A])) \<and>
     (Query r ''expr'' = Some (expr # exprs) \<and> openError = Some err \<longrightarrow>
        snd (ServeHTTP ParseFloat encode s h r) =
          Response 500 (''failed to open document: '' @ Error_msg err @ [CHR 0x0A])) \<and>
     (Query r ''expr'' = Some (expr # exprs) \<and> openError = None \<and>
      Path r \<noteq> ''/diagnostics'' \<and> getPositionFromURL ParseFloat (Query r) = Inl perr \<longrightarrow>
        snd (ServeHTTP ParseFloat encode s h r) = Response 400 (Error_msg perr @ [CHR 0x0A])) \<and>
     (isl (getPositionFromURL ParseFloat (Query r)) \<longleftrightarrow>
        Query r ''line'' = None \<or> Query r ''line'' = Some [] \<or>
        (\<exists>l ls. Query r ''line'' = Some (l # ls) \<and> isl (ParseFloat l)) \<or>
        Query r ''char'' = None \<or> Query r ''char'' = Some [] \<or>
        (\<exists>c cs. Query r ''char'' = Some (c # cs) \<and> isl (ParseFloat c))) \<and>
     (Query r ''expr'' = Some (expr # exprs) \<and> openError = None \<and>
      Path r = ''/diagnostics'' \<and> snd (snd (hs_GetDiagnostics s st1 uri)) = Some err \<longrightarrow>
        snd (ServeHTTP ParseFloat encode s h r) =
          Response 500 (''failed to get diagnostics: '' @ Error_msg err @ [CHR 0x0A])) \<and>
     (Query r ''expr'' = Some (expr # exprs) \<and> openError = None \<and>
      Path r = ''/hover'' \<and> getPositionFromURL ParseFloat (Query r) = Inr position \<and>
      snd (snd (hs_Hover s st1 \<lparr> HoverURI = uri, HoverPosition = position \<rparr>)) = Some err \<longrightarrow>
        snd (ServeHTTP ParseFloat encode s h r) =
          Response 500 (''failed to get hover info: '' @ Error_msg err @ [CHR 0x0A])) \<and>
     (Query r ''expr'' = Some (expr # exprs) \<and> openError = None \<and>
      Path r = ''/completion'' \<and> getPositionFromURL ParseFloat (Query r) = Inr position \<and>
      snd (snd (hs_Completion s st1 \<lparr> URI = uri, Position = position \<rparr>)) = Some err \<longrightarrow>
        snd (ServeHTTP ParseFloat encode s h r) =
          Response 500 (''failed to get hover info: '' @ Error_msg err @ [CHR 0x0A]))"
proof -
  note path = assms(1)
  note opn = assms(3) [unfolded assms(2)]
  have a: "Query r ''expr'' = None \<or> Query r ''expr'' = Some [] \<longrightarrow>
        snd (ServeHTTP ParseFloat encode s h r) =
          Response 400 (''Param expr is not specified'' @ [CHR 0x0A])"
    using ServeHTTP_no_expr [OF path, where ParseFloat = ParseFloat and encode = encode
        and s = s and h = h]
    by (auto simp: http_Error_def)
  have b: "Query r ''expr'' = Some (expr # exprs) \<and> openError = Some err \<longrightarrow>
        snd (ServeHTTP ParseFloat encode s h r) =
          Response 500 (''failed to open document: '' @ Error_msg err @ [CHR 0x0A])"
    using ServeHTTP_open_failed [OF path, where expr = expr and exprs = exprs and s = s
        and h = h and ?st1.0 = st1 and err = err and ParseFloat = ParseFloat
        and encode = encode] opn
    by (auto simp: http_Error_def Wrapf_def)
  have c: "Query r ''expr'' = Some (expr # exprs) \<and> openError = None \<and>
      Path r \<noteq> ''/diagnostics'' \<and> getPositionFromURL ParseFloat (Query r) = Inl perr \<longrightarrow>
        snd (ServeHTTP ParseFloat encode s h r) = Response 400 (Error_msg perr @ [CHR 0x0A])"
    using path ServeHTTP_opened(2,3)
      [where r = r and expr = expr and exprs = exprs and s = s and h = h and ?st1.0 = st1
         and encode = encode and ParseFloat = ParseFloat] opn
    by (auto simp: http_Error_def hoverHandler_def completionHandler_def)
  have d: "Query r ''expr'' = Some (expr # exprs) \<and> openError = None \<and>
      Path r = ''/diagnostics'' \<and> snd (snd (hs_GetDiagnostics s st1 uri)) = Some err \<longrightarrow>
        snd (ServeHTTP ParseFloat encode s h r) =
          Response 500 (''failed to get diagnostics: '' @ Error_msg err @ [CHR 0x0A])"
    using ServeHTTP_opened(1)
      [where r = r and expr = expr and exprs = exprs and s = s and h = h and ?st1.0 = st1
         and encode = encode and ParseFloat = ParseFloat] opn assms(2)
    by (cases "hs_GetDiagnostics s st1 uri")
       (auto simp: http_Error_def Wrapf_def diagnosticsHandler_def split: option.splits)
  have e: "Query r ''expr'' = Some (expr # exprs) \<and> openError = None \<and>
      Path r = ''/hover'' \<and> getPositionFromURL ParseFloat (Query r) = Inr position \<and>
      snd (snd (hs_Hover s st1 \<lparr> HoverURI = uri, HoverPosition = position \<rparr>)) = Some err \<longrightarrow>
        snd (ServeHTTP ParseFloat encode s h r) =
          Response 500 (''failed to get hover info: '' @ Error_msg err @ [CHR 0x0A])"
    using ServeHTTP_opened(2)
      [where r = r and expr = expr and exprs = exprs and s = s and h = h and ?st1.0 = st1
         and encode = encode and ParseFloat = ParseFloat] opn assms(2)
    by (cases "hs_Hover s st1 \<lparr> HoverURI = uri, HoverPosition = position \<rparr>")
       (auto simp: http_Error_def Wrapf_def hoverHandler_def)
  have f: "Query r ''expr'' = Some (expr # exprs) \<and> openError = None \<and>
      Path r = ''/completion'' \<and> getPositionFromURL ParseFloat (Query r) = Inr position \<and>
      snd (snd (hs_Completion s st1 \<lparr> URI = uri, Position = position \<rparr>)) = Some err \<longrightarrow>
        snd (ServeHTTP ParseFloat encode s h r) =
          Response 500 (''failed to get hover info: '' @ Error_msg err @ [CHR 0x0A])"
    using ServeHTTP_opened(3)
      [where r = r and expr = expr and exprs = exprs and s = s and h = h and ?st1.0 = st1
         and encode = encode and ParseFloat = ParseFloat] opn assms(2)
    by (cases "hs_Completion s st1 \<lparr> URI = uri, Position = position \<rparr>")
       (auto simp: http_Error_def Wrapf_def completionHandler_def split: option.splits)
  from a b c getPositionFromURL_fails_iff [of ParseFloat "Query r"] d e f
  show ?thesis by (intro conjI)
qed

text \<open>
  Witness for C6: a request without \<^verbatim>\<open>expr\<close>, a request whose \<^verbatim>\<open>line\<close> is not a
  number, and a request to a server that cannot open the document.
\<close>

theorem ServeHTTP_error_statuses_witness:
  "snd (ServeHTTP digits_ParseFloat null_encode some_headless some_handler
          (GET ''/hover'' [(''line'', ''0''), (''char'', ''0'')])) =
     Response 400 (''Param expr is not specified'' @ [CHR 0x0A]) \<and>
   snd (ServeHTTP digits_ParseFloat null_encode some_headless some_handler
          (GET ''/hover'' [(''expr'', ''up''), (''line'', ''x''), (''char'', ''0'')])) =
     Response 400 (''Failed to parse line number: invalid syntax'' @ [CHR 0x0A]) \<and>
   snd (ServeHTTP digits_ParseFloat null_encode refusingServer
          \<lparr> langserver = (), requestCounter = 0 \<rparr>
          (GET ''/diagnostics'' [(''expr'', ''up'')])) =
     Response 500 (''failed to open document: context canceled'' @ [CHR 0x0A])"
proof -
  have a: "snd (ServeHTTP digits_ParseFloat null_encode some_headless some_handler
          (GET ''/hover'' [(''line'', ''0''), (''char'', ''0'')])) =
     Response 400 (''Param expr is not specified'' @ [CHR 0x0A])"
    using ServeHTTP_error_statuses
      [where r = "GET ''/hover'' [(''line'', ''0''), (''char'', ''0'')]"
         and h = some_handler and s = some_headless and uri = "''1.promql''" and expr = "''up''"
         and ParseFloat = digits_ParseFloat and encode = null_encode
         and ?st1.0 = "\<lparr> cache = [''1.promql'' \<mapsto> compile_metric ''up''],
                         prometheus = Some api_up \<rparr>"
         and openError = None]
    by (simp add: GET_def some_handler_def some_headless_def headlessServer_def requestID_1 requestID_one)
  have b: "snd (ServeHTTP digits_ParseFloat null_encode some_headless some_handler
          (GET ''/hover'' [(''expr'', ''up''), (''line'', ''x''), (''char'', ''0'')])) =
     Response 400 (''Failed to parse line number: invalid syntax'' @ [CHR 0x0A])"
    using ServeHTTP_error_statuses
      [where r = "GET ''/hover'' [(''expr'', ''up''), (''line'', ''x''), (''char'', ''0'')]"
         and h = some_handler and s = some_headless and uri = "''1.promql''" and expr = "''up''"
         and exprs = "[]"
         and ParseFloat = digits_ParseFloat and encode = null_encode
         and ?st1.0 = "\<lparr> cache = [''1.promql'' \<mapsto> compile_metric ''up''],
                         prometheus = Some api_up \<rparr>"
         and openError = None
         and perr = "Error ''Failed to parse line number: invalid syntax''"]
    by (simp add: GET_def some_handler_def some_headless_def headlessServer_def requestID_1 requestID_one
        getPositionFromURL_def digits_ParseFloat_x Wrapf_def)
  have c: "snd (ServeHTTP digits_ParseFloat null_encode refusingServer
          \<lparr> langserver = (), requestCounter = 0 \<rparr>
          (GET ''/diagnostics'' [(''expr'', ''up'')])) =
     Response 500 (''failed to open document: context canceled'' @ [CHR 0x0A])"
    using ServeHTTP_error_statuses
      [where r = "GET ''/diagnostics'' [(''expr'', ''up'')]"
         and h = "\<lparr> langserver = (), requestCounter = 0 \<rparr>" and s = refusingServer
         and uri = "''1.promql''" and expr = "''up''" and exprs = "[]"
         and ParseFloat = digits_ParseFloat and encode = null_encode
         and ?st1.0 = "()" and openError = "Some (Error ''context canceled'')"
         and err = "Error ''context canceled''"]
    by (simp add: GET_def refusingServer_def requestID_1 requestID_one)
  from a b c show ?thesis by simp
qed

subsection \<open>C7: the request-scoped document\<close>

text \<open>
  Claim C7 at the request \<^verbatim>\<open>GET /completion?expr=up&line=5&char=0\<close>, the first
  request of a handler: the document \<^verbatim>\<open>1.promql\<close> is opened, \<^verbatim>\<open>Completion\<close> returns
  nil and no error for the position outside the document, and the handler panics on
  \<^verbatim>\<open>completion.Items\<close> instead of writing JSON. The deferred \<^verbatim>\<open>DidClose\<close> still
  runs: the cache is empty afterwards.
\<close>

theorem completion_out_of_range_panics:
  "ServeHTTP digits_ParseFloat null_encode some_headless some_handler
     (GET ''/completion'' [(''expr'', ''up''), (''line'', ''5''), (''char'', ''0'')]) =
   (\<lparr> langserver = \<lparr> cache = Map.empty, prometheus = Some api_up \<rparr>, requestCounter = 1 \<rparr>,
    Panic)"
  by (simp add: ServeHTTP_def Let_def GET_def some_headless_def some_handler_def
      headlessServer_def completionHandler_def getPositionFromURL_def requestID_1
      digits_ParseFloat_5 digits_ParseFloat_0 Completion_def GetDocument_def
      compile_metric_def singleLineDocument_def)

text \<open>
  On every path of a request with \<^verbatim>\<open>expr\<close> to one of the three endpoints, the
  request's document is not in the cache when the handler is done.
\<close>

lemma ServeHTTP_closes_document:
  assumes "Path r = ''/diagnostics'' \<or> Path r = ''/hover'' \<or> Path r = ''/completion''"
    and "Query r ''expr'' = Some (expr # exprs)"
  shows "cache (langserver (fst (ServeHTTP ParseFloat encode
            (headlessServer Functions compile diagnose hover) h r)))
           (requestID (requestCounter h + 1)) = None"
  using assms
  by (auto simp: ServeHTTP_def Let_def headlessServer_def split: prod.splits option.splits)

subsection \<open>C8: changing the data source at run time\<close>

text \<open>
  Claim C8: for settings with a \<^verbatim>\<open>url\<close>, the URL is parsed first. If it does not
  parse, the error is returned and the server is unchanged: \<^verbatim>\<open>ChangeDataSource\<close> is
  not called. If it parses, \<^verbatim>\<open>ChangeDataSource\<close> is called once with the new URL and
  the metadata service is left as that call leaves it; if the call fails, the failure is
  shown to the client as an error message naming the URL and returned, and nothing is
  reverted.
\<close>

theorem setURL_validates_before_swapping:
  assumes "settings ''url'' = Some u"
  shows "(url_Parse ext u = Some err \<longrightarrow>
            setURLFromChangeConfiguration ext s settings = (s, Some err)) \<and>
         (url_Parse ext u = None \<and> ChangeDataSource ext (metadataService s) u = (ms, None) \<longrightarrow>
            setURLFromChangeConfiguration ext s settings = (s\<lparr> metadataService := ms \<rparr>, None)) \<and>
         (url_Parse ext u = None \<and> ChangeDataSource ext (metadataService s) u = (ms', Some err') \<longrightarrow>
            setURLFromChangeConfiguration ext s settings =
              (s\<lparr> metadataService := ms',
                  client := client s @
                    [ShowMessage TypeError
                       (''Failed to connect to Prometheus at '' @ u @ '':'' @ [CHR 0x0A, CHR 0x0A] @
                        Error_msg err' @ '' '')] \<rparr>,
               Some err'))"
  using assms
  by (simp add: setURLFromChangeConfiguration_def connectPrometheus_def send_def)

text \<open>
  With the metadata service of spec 4.5 behind \<^verbatim>\<open>ChangeDataSource\<close>: a URL that
  parses is the configured source afterwards whether or not the endpoint answers; the
  snapshot is replaced when it answers and kept when it does not.
\<close>

lemma setURL_with_changeSource:
  assumes "settings ''url'' = Some u"
    and "ChangeDataSource ext = changeSource (url_Parse ext) fetch"
    and "url_Parse ext u = None"
  shows "source (metadataService (fst (setURLFromChangeConfiguration ext s settings))) = u"
    and "fetch u = Inr names \<Longrightarrow>
         setURLFromChangeConfiguration ext s settings =
           (s\<lparr> metadataService := \<lparr> source = u, metricNames = names \<rparr> \<rparr>, None)"
    and "fetch u = Inl err \<Longrightarrow>
         metricNames (metadataService (fst (setURLFromChangeConfiguration ext s settings))) =
           metricNames (metadataService s) \<and>
         snd (setURLFromChangeConfiguration ext s settings) = Some err"
  using assms
  by (auto simp: setURLFromChangeConfiguration_def connectPrometheus_def changeSource_def
      refresh_def send_def split: sum.splits)

text \<open>
  Witness for C8, with the metadata service of spec 4.5: a URL with a control
  character, a reachable URL and an unreachable one.
\<close>

theorem setURL_validates_before_swapping_witness:
  "setURLFromChangeConfiguration some_externals some_config_server
       [''url'' \<mapsto> ''http://local'' @ [CHR 0x0A] @ ''host''] =
     (some_config_server, Some (Error ''net/url: invalid control character in URL'')) \<and>
   setURLFromChangeConfiguration some_externals some_config_server
       [''url'' \<mapsto> ''http://localhost:9090''] =
     (some_config_server
        \<lparr> metadataService := \<lparr> source = ''http://localhost:9090'',
                                 metricNames = [''up'', ''up_total''] \<rparr> \<rparr>, None) \<and>
   setURLFromChangeConfiguration some_externals some_config_server
       [''url'' \<mapsto> ''http://prometheus:9090''] =
     (some_config_server
        \<lparr> metadataService := \<lparr> source = ''http://prometheus:9090'', metricNames = [''up''] \<rparr>,
          client := [ShowMessage TypeError
            (''Failed to connect to Prometheus at http://prometheus:9090:'' @ [CHR 0x0A, CHR 0x0A] @
             ''connection refused '')] \<rparr>,
      Some (Error ''connection refused''))"
proof -
  have a: "setURLFromChangeConfiguration some_externals some_config_server
       [''url'' \<mapsto> ''http://local'' @ [CHR 0x0A] @ ''host''] =
     (some_config_server, Some (Error ''net/url: invalid control character in URL''))"
    using setURL_validates_before_swapping
      [of "[''url'' \<mapsto> ''http://local'' @ [CHR 0x0A] @ ''host'']"
          "''http://local'' @ [CHR 0x0A] @ ''host''" some_externals
          "Error ''net/url: invalid control character in URL''" some_config_server]
    by (simp add: some_externals_def ctl_url_Parse_def)
  have b: "setURLFromChangeConfiguration some_externals some_config_server
       [''url'' \<mapsto> ''http://localhost:9090''] =
     (some_config_server
        \<lparr> metadataService := \<lparr> source = ''http://localhost:9090'',
                                 metricNames = [''up'', ''up_total''] \<rparr> \<rparr>, None)"
    using setURL_validates_before_swapping
      [of "[''url'' \<mapsto> ''http://localhost:9090'']" "''http://localhost:9090''" some_externals
          _ some_config_server
          "\<lparr> source = ''http://localhost:9090'', metricNames = [''up'', ''up_total''] \<rparr>"]
    by (simp add: config_example_defs)
  have c: "setURLFromChangeConfiguration some_externals some_config_server
       [''url'' \<mapsto> ''http://prometheus:9090''] =
     (some_config_server
        \<lparr> metadataService := \<lparr> source = ''http://prometheus:9090'', metricNames = [''up''] \<rparr>,
          client := [ShowMessage TypeError
            (''Failed to connect to Prometheus at http://prometheus:9090:'' @ [CHR 0x0A, CHR 0x0A] @
             ''connection refused '')] \<rparr>,
      Some (Error ''connection refused''))"
    using setURL_validates_before_swapping
      [of "[''url'' \<mapsto> ''http://prometheus:9090'']" "''http://prometheus:9090''" some_externals
          _ some_config_server _
          "\<lparr> source = ''http://prometheus:9090'', metricNames = [''up''] \<rparr>"
          "Error ''connection refused''"]
    by (simp add: config_example_defs)
  from a b c show ?thesis by simp
qed

subsection \<open>C9: validation at load time\<close>

text \<open>
  Claim C9 at the configuration file \<^verbatim>\<open>empty.yml\<close>, a file of zero bytes: the YAML
  library finds no document and does not call the \<^verbatim>\<open>UnmarshalYAML\<close> hook, so
  \<^verbatim>\<open>Validate\<close> never runs; \<^verbatim>\<open>ReadConfig\<close> returns the zero configuration and no
  error, and its \<^verbatim>\<open>MetadataLookbackInterval\<close> is 0, not the default of 12 hours. The
  sibling path does what this one misses: with no configuration file and nothing set in
  the environment, \<^verbatim>\<open>ReadConfig\<close> validates and returns the default interval.
\<close>

theorem ReadConfig_empty_file_keeps_zero_interval:
  "ReadConfig some_loading ''empty.yml'' = (Some zeroConfig, None) \<and>
   MetadataLookbackInterval zeroConfig = 0 \<and>
   defaultInterval = 43200000000000 \<and>
   ReadConfig some_loading [] =
     (Some (zeroConfig\<lparr> LogFormat := ''text'', MetadataLookbackInterval := 43200000000000 \<rparr>),
      None)"
  by (simp add: ReadConfig_def readConfigFromYAML_def readConfigFromENV_def yaml_Unmarshal_def
      some_loading_def zeroConfig_def unmarshalENV_def Validate_def Let_def TextFormat_def
      defaultInterval_def Second_def)

text \<open>
  The empty document is the only case in which a loaded configuration keeps a
  non-positive interval. A file without a document is loaded as the zero configuration;
  a document whose non-empty URL does not parse fails with the parser's error; a
  document that loads has the interval it gives if that is positive, and the default
  otherwise; and so has a configuration loaded from the environment. A document, or
  an environment whose port and interval parse, loads without an error exactly when the
  URL is empty or parses and the log format is empty or known.
\<close>

lemma ReadConfig_no_document:
  assumes "configFile \<noteq> []" and "os_ReadFile L configFile = Inr b"
    and "yaml_parse L b = NoDocument"
  shows "ReadConfig L configFile = (Some zeroConfig, None)"
  using assms by (simp add: ReadConfig_def readConfigFromYAML_def yaml_Unmarshal_def)

lemma ReadConfig_yaml_document:
  assumes "configFile \<noteq> []" and "os_ReadFile L configFile = Inr b"
    and "yaml_parse L b = DocumentNode (Inr tmp)"
  shows "ReadConfig L configFile =
     (if (PrometheusURL tmp = [] \<or> net_url_Parse L (PrometheusURL tmp) = None) \<and>
         (LogFormat tmp = [] \<or> mapLogFormat (LogFormat tmp))
      then (Some (fst (Validate (net_url_Parse L) tmp)), None)
      else (Some zeroConfig, snd (Validate (net_url_Parse L) tmp)))"
  using assms Validate_ok_iff [of "net_url_Parse L" tmp]
  by (simp add: ReadConfig_def readConfigFromYAML_def yaml_Unmarshal_def UnmarshalYAML_Validate)

lemma ReadConfig_yaml_bad_url:
  assumes "configFile \<noteq> []" and "os_ReadFile L configFile = Inr b"
    and "yaml_parse L b = DocumentNode (Inr tmp)"
    and "PrometheusURL tmp \<noteq> []" and "net_url_Parse L (PrometheusURL tmp) = Some err"
  shows "ReadConfig L configFile = (Some zeroConfig, Some err)"
  using assms
  by (simp add: ReadConfig_def readConfigFromYAML_def yaml_Unmarshal_def UnmarshalYAML_Validate
      Validate_bad_url)

lemma ReadConfig_yaml_interval:
  assumes "configFile \<noteq> []" and "os_ReadFile L configFile = Inr b"
    and "yaml_parse L b = DocumentNode (Inr tmp)"
    and "ReadConfig L configFile = (Some c, None)"
  shows "MetadataLookbackInterval c =
     (if MetadataLookbackInterval tmp \<le> 0 then defaultInterval
      else MetadataLookbackInterval tmp)"
proof -
  have ok: "snd (Validate (net_url_Parse L) tmp) = None"
    and c: "c = fst (Validate (net_url_Parse L) tmp)"
    using assms
    by (auto simp: ReadConfig_def readConfigFromYAML_def yaml_Unmarshal_def
        UnmarshalYAML_Validate split: if_splits)
  from Validate_interval [OF ok] c show ?thesis by simp
qed

lemma ReadConfig_env:
  assumes "envconfig_Process L = Inr conf"
    and "env_RESTAPIPort conf = [] \<or> snd (strconv_ParseUint L (env_RESTAPIPort conf)) = None"
    and "env_MetadataLookbackInterval conf = [] \<or>
         snd (model_ParseDuration L (env_MetadataLookbackInterval conf)) = None"
  shows "ReadConfig L [] =
     (Some (fst (unmarshalENV (net_url_Parse L) (strconv_ParseUint L) (model_ParseDuration L)
                   zeroConfig (Inr conf))),
      if (env_PrometheusURL conf = [] \<or> net_url_Parse L (env_PrometheusURL conf) = None) \<and>
         (env_LogFormat conf = [] \<or> mapLogFormat (env_LogFormat conf))
      then None
      else snd (unmarshalENV (net_url_Parse L) (strconv_ParseUint L) (model_ParseDuration L)
                  zeroConfig (Inr conf)))"
proof -
  let ?u = "unmarshalENV (net_url_Parse L) (strconv_ParseUint L) (model_ParseDuration L)
             zeroConfig (Inr conf)"
  note v = unmarshalENV_Validate
    [where parseUint = "strconv_ParseUint L" and parseDuration = "model_ParseDuration L"
       and conf = conf and parse = "net_url_Parse L" and ?c0.0 = zeroConfig,
     OF assms(2) assms(3)]
  have "snd ?u = None \<longleftrightarrow>
      (env_PrometheusURL conf = [] \<or> net_url_Parse L (env_PrometheusURL conf) = None) \<and>
      (env_LogFormat conf = [] \<or> mapLogFormat (env_LogFormat conf))"
    unfolding v Validate_ok_iff by simp
  then show ?thesis
    using assms(1) by (cases ?u) (auto simp: ReadConfig_def readConfigFromENV_def)
qed

lemma ReadConfig_env_interval:
  assumes "envconfig_Process L = Inr conf"
    and "ReadConfig L [] = (Some c, None)"
  shows "MetadataLookbackInterval c =
     (if (if env_MetadataLookbackInterval conf = [] then 0
          else fst (model_ParseDuration L (env_MetadataLookbackInterval conf))) \<le> 0
      then defaultInterval
      else fst (model_ParseDuration L (env_MetadataLookbackInterval conf)))"
proof -
  let ?u = "unmarshalENV (net_url_Parse L) (strconv_ParseUint L) (model_ParseDuration L)
             zeroConfig (Inr conf)"
  have u: "?u = (c, None)"
    using assms by (cases ?u) (simp add: ReadConfig_def readConfigFromENV_def)
  have p: "env_RESTAPIPort conf = [] \<or> snd (strconv_ParseUint L (env_RESTAPIPort conf)) = None"
    using u
    by (cases "strconv_ParseUint L (env_RESTAPIPort conf)")
       (auto simp: unmarshalENV_def Let_def split: if_splits option.splits)
  have d: "env_MetadataLookbackInterval conf = [] \<or>
         snd (model_ParseDuration L (env_MetadataLookbackInterval conf)) = None"
    using u
    by (cases "strconv_ParseUint L (env_RESTAPIPort conf)";
        cases "model_ParseDuration L (env_MetadataLookbackInterval conf)")
       (auto simp: unmarshalENV_def Let_def split: if_splits option.splits)
  note v = unmarshalENV_Validate
    [where parseUint = "strconv_ParseUint L" and parseDuration = "model_ParseDuration L"
       and conf = conf and parse = "net_url_Parse L" and ?c0.0 = zeroConfig, OF p d]
  from u have ok: "snd ?u = None" and c: "c = fst ?u" by simp_all
  show ?thesis
    unfolding c
    using Validate_interval [OF ok [unfolded v]]
    unfolding v [symmetric]
    by (simp add: zeroConfig_def split: if_splits)
qed

subsection \<open>C10: DidChangeConfiguration never returns an error\<close>

text \<open>
  Claim C10: \<^verbatim>\<open>DidChangeConfiguration\<close> returns a nil error for every input. With nil
  params it does nothing. Settings of an unexpected shape and a missing \<^verbatim>\<open>promql\<close>
  key are logged to the client as errors; an invalid URL, an unreachable endpoint and an
  unparsable interval are logged to the client as info messages carrying the error's
  text (the unreachable endpoint is shown as an error as well).
\<close>

theorem DidChangeConfiguration_always_returns_nil:
  "snd (DidChangeConfiguration ext s params) = None \<and>
   DidChangeConfiguration ext s None = (s, None) \<and>
   (Settings p = SettingsOther \<longrightarrow>
      client (fst (DidChangeConfiguration ext s (Some p))) =
        client s @
        [LogMessage TypeInfo (''Received notification change: '' @ Sprint_params ext p @ [CHR 0x0A]),
         LogMessage TypeError ''unexpected format of the configuration'']) \<and>
   (Settings p = SettingsMap m \<and> m ''promql'' = None \<longrightarrow>
      client (fst (DidChangeConfiguration ext s (Some p))) =
        client s @
        [LogMessage TypeInfo (''Received notification change: '' @ Sprint_params ext p @ [CHR 0x0A]),
         LogMessage TypeError ''promQL key not found'']) \<and>
   (Settings p = SettingsMap m \<and> m ''promql'' = Some cfg \<and> cfg ''url'' = Some u \<and>
    url_Parse ext u = Some e1 \<longrightarrow>
      LogMessage TypeInfo (Error_msg e1)
        \<in> set (client (fst (DidChangeConfiguration ext s (Some p))))) \<and>
   (Settings p = SettingsMap m \<and> m ''promql'' = Some cfg \<and> cfg ''url'' = Some u \<and>
    url_Parse ext u = None \<and> snd (ChangeDataSource ext (metadataService s) u) = Some e2 \<longrightarrow>
      LogMessage TypeInfo (Error_msg e2)
        \<in> set (client (fst (DidChangeConfiguration ext s (Some p)))) \<and>
      ShowMessage TypeError
          (''Failed to connect to Prometheus at '' @ u @ '':'' @ [CHR 0x0A, CHR 0x0A] @
           Error_msg e2 @ '' '')
        \<in> set (client (fst (DidChangeConfiguration ext s (Some p))))) \<and>
   (Settings p = SettingsMap m \<and> m ''promql'' = Some cfg \<and>
    cfg ''metadataLookbackInterval'' = Some d \<and> snd (ParseDuration ext d) = Some e3 \<longrightarrow>
      LogMessage TypeInfo (Error_msg e3)
        \<in> set (client (fst (DidChangeConfiguration ext s (Some p)))))"
proof -
  let ?recv = "LogMessage TypeInfo
    (''Received notification change: '' @ Sprint_params ext p @ [CHR 0x0A])"
  have a: "snd (DidChangeConfiguration ext s params) = None"
    by (simp add: DidChangeConfiguration_def Let_def
        split: option.splits SettingsValue.splits prod.splits)
  have b: "DidChangeConfiguration ext s None = (s, None)"
    by (simp add: DidChangeConfiguration_def)
  have c: "Settings p = SettingsOther \<longrightarrow>
      client (fst (DidChangeConfiguration ext s (Some p))) =
        client s @ [?recv, LogMessage TypeError ''unexpected format of the configuration'']"
    by (simp add: DidChangeConfiguration_def Let_def client_send)
  have d: "Settings p = SettingsMap m \<and> m ''promql'' = None \<longrightarrow>
      client (fst (DidChangeConfiguration ext s (Some p))) =
        client s @ [?recv, LogMessage TypeError ''promQL key not found'']"
    by (simp add: DidChangeConfiguration_def Let_def client_send)
  have e: "Settings p = SettingsMap m \<and> m ''promql'' = Some cfg \<and> cfg ''url'' = Some u \<and>
    url_Parse ext u = Some e1 \<longrightarrow>
      LogMessage TypeInfo (Error_msg e1)
        \<in> set (client (fst (DidChangeConfiguration ext s (Some p))))"
  proof (intro impI, elim conjE)
    assume h: "Settings p = SettingsMap m" "m ''promql'' = Some cfg"
      and u: "cfg ''url'' = Some u" "url_Parse ext u = Some e1"
    show "LogMessage TypeInfo (Error_msg e1)
        \<in> set (client (fst (DidChangeConfiguration ext s (Some p))))"
      unfolding DidChange_promql_client [OF h]
        setURL_invalid [where settings = cfg and u = u and ext = ext and err = e1, OF u]
      by simp
  qed
  have f: "Settings p = SettingsMap m \<and> m ''promql'' = Some cfg \<and> cfg ''url'' = Some u \<and>
    url_Parse ext u = None \<and> snd (ChangeDataSource ext (metadataService s) u) = Some e2 \<longrightarrow>
      LogMessage TypeInfo (Error_msg e2)
        \<in> set (client (fst (DidChangeConfiguration ext s (Some p)))) \<and>
      ShowMessage TypeError
          (''Failed to connect to Prometheus at '' @ u @ '':'' @ [CHR 0x0A, CHR 0x0A] @
           Error_msg e2 @ '' '')
        \<in> set (client (fst (DidChangeConfiguration ext s (Some p))))"
  proof (intro impI, elim conjE)
    assume h: "Settings p = SettingsMap m" "m ''promql'' = Some cfg"
      and u: "cfg ''url'' = Some u" "url_Parse ext u = None"
      and x: "snd (ChangeDataSource ext (metadataService s) u) = Some e2"
    obtain ms where ms: "ChangeDataSource ext (metadataService (send s ?recv)) u = (ms, Some e2)"
      using x by (cases "ChangeDataSource ext (metadataService s) u")
        (simp add: metadataService_send)
    show "LogMessage TypeInfo (Error_msg e2)
        \<in> set (client (fst (DidChangeConfiguration ext s (Some p)))) \<and>
      ShowMessage TypeError
          (''Failed to connect to Prometheus at '' @ u @ '':'' @ [CHR 0x0A, CHR 0x0A] @
           Error_msg e2 @ '' '')
        \<in> set (client (fst (DidChangeConfiguration ext s (Some p))))"
      unfolding DidChange_promql_client [OF h]
        setURL_unreachable [where settings = cfg and u = u and ext = ext, OF u ms]
      by (simp add: client_send)
  qed
  have g: "Settings p = SettingsMap m \<and> m ''promql'' = Some cfg \<and>
    cfg ''metadataLookbackInterval'' = Some d \<and> snd (ParseDuration ext d) = Some e3 \<longrightarrow>
      LogMessage TypeInfo (Error_msg e3)
        \<in> set (client (fst (DidChangeConfiguration ext s (Some p))))"
  proof (intro impI, elim conjE)
    assume h: "Settings p = SettingsMap m" "m ''promql'' = Some cfg"
      and u: "cfg ''metadataLookbackInterval'' = Some d" "snd (ParseDuration ext d) = Some e3"
    show "LogMessage TypeInfo (Error_msg e3)
        \<in> set (client (fst (DidChangeConfiguration ext s (Some p))))"
      unfolding DidChange_promql_client [OF h]
      using u by simp
  qed
  from a b c d e f g show ?thesis by (intro conjI)
qed

text \<open>
  Witness for C10: settings of an unexpected shape, and settings with an unreachable
  URL and an unparsable interval.
\<close>

theorem DidChangeConfiguration_always_returns_nil_witness:
  "DidChangeConfiguration some_externals some_config_server (Some params_other) =
     (some_config_server
        \<lparr> client := [LogMessage TypeInfo (''Received notification change: &{...}'' @ [CHR 0x0A]),
                     LogMessage TypeError ''unexpected format of the configuration''] \<rparr>, None) \<and>
   snd (DidChangeConfiguration some_externals some_config_server (Some params_unreachable)) = None \<and>
   LogMessage TypeInfo ''connection refused''
     \<in> set (client (fst (DidChangeConfiguration some_externals some_config_server
                           (Some params_unreachable)))) \<and>
   LogMessage TypeInfo ''not a valid duration string''
     \<in> set (client (fst (DidChangeConfiguration some_externals some_config_server
                           (Some params_unreachable))))"
proof -
  note t = DidChangeConfiguration_always_returns_nil
    [where ext = some_externals and s = some_config_server]
  have a: "DidChangeConfiguration some_externals some_config_server (Some params_other) =
     (some_config_server
        \<lparr> client := [LogMessage TypeInfo (''Received notification change: &{...}'' @ [CHR 0x0A]),
                     LogMessage TypeError ''unexpected format of the configuration''] \<rparr>, None)"
    using t [where params = "Some params_other" and p = params_other]
    by (cases "DidChangeConfiguration some_externals some_config_server (Some params_other)")
       (simp add: DidChangeConfiguration_def Let_def send_def params_other_def
          some_externals_def some_config_server_def)
  have b: "snd (DidChangeConfiguration some_externals some_config_server
      (Some params_unreachable)) = None"
    using t [where params = "Some params_unreachable"] by simp
  have h: "Settings params_unreachable = SettingsMap
         [''promql'' \<mapsto> [''url'' \<mapsto> ''http://prometheus:9090'',
                          ''metadataLookbackInterval'' \<mapsto> ''soon'']] \<and>
      [''promql'' \<mapsto> [''url'' \<mapsto> ''http://prometheus:9090'',
                       ''metadataLookbackInterval'' \<mapsto> ''soon'']] ''promql'' =
        Some [''url'' \<mapsto> ''http://prometheus:9090'', ''metadataLookbackInterval'' \<mapsto> ''soon''] \<and>
      [''url'' \<mapsto> ''http://prometheus:9090'', ''metadataLookbackInterval'' \<mapsto> ''soon'']
        ''url'' = Some ''http://prometheus:9090'' \<and>
      [''url'' \<mapsto> ''http://prometheus:9090'', ''metadataLookbackInterval'' \<mapsto> ''soon'']
        ''metadataLookbackInterval'' = Some ''soon''"
    by (simp add: params_unreachable_def)
  have x: "url_Parse some_externals ''http://prometheus:9090'' = None \<and>
      snd (ChangeDataSource some_externals (metadataService some_config_server)
             ''http://prometheus:9090'') = Some (Error ''connection refused'') \<and>
      snd (ParseDuration some_externals ''soon'') = Some (Error ''not a valid duration string'')"
    by (simp add: config_example_defs)
  have c: "LogMessage TypeInfo ''connection refused''
     \<in> set (client (fst (DidChangeConfiguration some_externals some_config_server
                           (Some params_unreachable))))"
    using t [where p = params_unreachable and u = "''http://prometheus:9090''"
        and ?e2.0 = "Error ''connection refused''"
        and m = "[''promql'' \<mapsto> [''url'' \<mapsto> ''http://prometheus:9090'',
                          ''metadataLookbackInterval'' \<mapsto> ''soon'']]"
        and cfg = "[''url'' \<mapsto> ''http://prometheus:9090'',
                    ''metadataLookbackInterval'' \<mapsto> ''soon'']"] h x
    by simp
  have d: "LogMessage TypeInfo ''not a valid duration string''
     \<in> set (client (fst (DidChangeConfiguration some_externals some_config_server
                           (Some params_unreachable))))"
    using t [where p = params_unreachable and d = "''soon''"
        and ?e3.0 = "Error ''not a valid duration string''"
        and m = "[''promql'' \<mapsto> [''url'' \<mapsto> ''http://prometheus:9090'',
                          ''metadataLookbackInterval'' \<mapsto> ''soon'']]"
        and cfg = "[''url'' \<mapsto> ''http://prometheus:9090'',
                    ''metadataLookbackInterval'' \<mapsto> ''soon'']"] h x
    by simp
  from a b c d show ?thesis by simp
qed

end
